theory Spec2Isabelle
  imports Complex_Main "HOL-Library.Log_Nat"
begin

section \<open>The C++ type \<^verbatim>\<open>double\<close>: IEEE 754 binary64\<close>

text \<open>
  Every number of \<^verbatim>\<open>bank_account.cpp\<close> is a \<^verbatim>\<open>double\<close>. The class compares doubles
  (\<^verbatim>\<open>>\<close>, \<^verbatim>\<open>>=\<close>, \<^verbatim>\<open><=\<close>) and adds, subtracts, multiplies and divides them, so
  the model has the values of binary64 and these operations, each rounded to nearest
  with ties to even (the default rounding of C++ on x86-64 and AArch64).

  \<open>Finite s m\<close> is the number with sign bit \<open>s\<close> (\<open>True\<close> is negative) and magnitude
  \<open>m \<ge> 0\<close>, so both zeros are there: \<open>Finite False 0\<close> and \<open>Finite True 0\<close>.
  \<open>Infinity s\<close> is the infinity of sign \<open>s\<close>. All NaNs are one value: no operation of
  the class reads a NaN's payload.
\<close>

datatype double = Finite bool rat | Infinity bool | NaN

fun valof :: "double \<Rightarrow> rat" where
  "valof (Finite s m) = (if s then - m else m)"
| "valof (Infinity s) = 0"
| "valof NaN = 0"

subsection \<open>Comparisons\<close>

text \<open>A comparison with a NaN operand is false; the zeros compare equal.\<close>

fun flt :: "double \<Rightarrow> double \<Rightarrow> bool" where
  "flt (Finite s m) (Finite t n) = (valof (Finite s m) < valof (Finite t n))"
| "flt (Finite s m) (Infinity t) = (\<not> t)"
| "flt (Infinity s) (Finite t n) = s"
| "flt (Infinity s) (Infinity t) = (s \<and> \<not> t)"
| "flt NaN y = False"
| "flt x NaN = False"

fun fle :: "double \<Rightarrow> double \<Rightarrow> bool" where
  "fle (Finite s m) (Finite t n) = (valof (Finite s m) \<le> valof (Finite t n))"
| "fle (Finite s m) (Infinity t) = (\<not> t)"
| "fle (Infinity s) (Finite t n) = s"
| "fle (Infinity s) (Infinity t) = (s \<or> \<not> t)"
| "fle NaN y = False"
| "fle x NaN = False"

definition fgt :: "double \<Rightarrow> double \<Rightarrow> bool" where
  "fgt x y = flt y x"

definition fge :: "double \<Rightarrow> double \<Rightarrow> bool" where
  "fge x y = fle y x"

subsection \<open>Rounding to nearest, ties to even\<close>

text \<open>
  \<open>ilog2 x\<close> is the binary exponent of a positive rational: \<open>2 ^ ilog2 x \<le> x < 2 ^ (ilog2 x + 1)\<close>
  (lemma \<open>ilog2_bounds\<close>). A binary64 number of exponent \<open>e\<close> is a multiple of
  \<open>2 ^ (e - 52)\<close> (53 significant bits), and of \<open>2 ^ (- 1074)\<close> when it is subnormal
  (\<open>e < - 1022\<close>): \<open>ulp_exp\<close> is the exponent of that unit. \<open>round_mag\<close> rounds a magnitude
  to the nearest multiple of its unit, and \<open>round64\<close> makes the result an infinity when
  its exponent is above 1023, that is when it reaches \<open>2 ^ 1024\<close> (lemma \<open>round64_overflow\<close>).
\<close>

definition ilog2 :: "rat \<Rightarrow> int" where
  "ilog2 x = (if 1 \<le> x then bitlen \<lfloor>x\<rfloor> - 1 else - bitlen (\<lceil>1 / x\<rceil> - 1))"

definition round_half_even :: "rat \<Rightarrow> int" where
  "round_half_even x =
     (let n = \<lfloor>x\<rfloor>; r = x - of_int n
      in if r < 1 / 2 then n else if 1 / 2 < r then n + 1 else if even n then n else n + 1)"

definition ulp_exp :: "rat \<Rightarrow> int" where
  "ulp_exp x = max (ilog2 x) (- 1022) - 52"

definition round_mag :: "rat \<Rightarrow> rat" where
  "round_mag x =
     (if x = 0 then 0
      else of_int (round_half_even (x / 2 powi ulp_exp x)) * 2 powi ulp_exp x)"

definition round64 :: "bool \<Rightarrow> rat \<Rightarrow> double" where
  "round64 s x =
     (let y = round_mag x in if 0 < y \<and> 1024 \<le> ilog2 y then Infinity s else Finite s y)"

text \<open>The double that a decimal literal of the source denotes.\<close>

definition double_of_rat :: "rat \<Rightarrow> double" where
  "double_of_rat v = round64 (v < 0) \<bar>v\<bar>"

text \<open>
  The values of \<open>double\<close> that are binary64 numbers: a finite one has a magnitude that
  rounding leaves as it is, which is to say an integer below \<open>2 ^ 53\<close> times a power of
  two with an exponent from \<open>- 1074\<close> to \<open>971\<close> (lemma \<open>is_double_iff\<close>).
\<close>

fun is_double :: "double \<Rightarrow> bool" where
  "is_double (Finite s m) = (0 \<le> m \<and> round64 s m = Finite s m)"
| "is_double (Infinity s) = True"
| "is_double NaN = True"

fun is_finite :: "double \<Rightarrow> bool" where
  "is_finite (Finite s m) = True"
| "is_finite (Infinity s) = False"
| "is_finite NaN = False"

text \<open>
  A rational that is the value of a binary64 number: an operation with this exact result
  does not round.
\<close>

definition representable :: "rat \<Rightarrow> bool" where
  "representable v = is_double (Finite (v < 0) \<bar>v\<bar>)"

text \<open>
  The values that compare \<open>\<ge> 0\<close>: \<open>+\<infinity>\<close>, and the finite ones whose sign bit is set only
  on zero.
\<close>

fun nonneg :: "double \<Rightarrow> bool" where
  "nonneg (Finite s m) = (0 \<le> m \<and> (s \<longrightarrow> m = 0))"
| "nonneg (Infinity s) = (\<not> s)"
| "nonneg NaN = False"

subsection \<open>Arithmetic\<close>

text \<open>
  An exact sum of zero is \<open>+0\<close>, unless both operands are \<open>-0\<close>. A product or quotient
  has the exclusive or of the signs, also when it is zero or rounds to zero.
  \<open>\<infinity> - \<infinity>\<close>, \<open>0 * \<infinity>\<close>, \<open>0 / 0\<close> and \<open>\<infinity> / \<infinity>\<close> are NaN.
\<close>

fun fneg :: "double \<Rightarrow> double" where
  "fneg (Finite s m) = Finite (\<not> s) m"
| "fneg (Infinity s) = Infinity (\<not> s)"
| "fneg NaN = NaN"

fun fadd :: "double \<Rightarrow> double \<Rightarrow> double" where
  "fadd (Finite s m) (Finite t n) =
     (let v = valof (Finite s m) + valof (Finite t n)
      in if v = 0 then Finite (s \<and> t) 0 else round64 (v < 0) \<bar>v\<bar>)"
| "fadd (Finite s m) (Infinity t) = Infinity t"
| "fadd (Infinity s) (Finite t n) = Infinity s"
| "fadd (Infinity s) (Infinity t) = (if s = t then Infinity s else NaN)"
| "fadd NaN y = NaN"
| "fadd x NaN = NaN"

definition fsub :: "double \<Rightarrow> double \<Rightarrow> double" where
  "fsub x y = fadd x (fneg y)"

fun fmul :: "double \<Rightarrow> double \<Rightarrow> double" where
  "fmul (Finite s m) (Finite t n) = round64 (s \<noteq> t) (m * n)"
| "fmul (Finite s m) (Infinity t) = (if m = 0 then NaN else Infinity (s \<noteq> t))"
| "fmul (Infinity s) (Finite t n) = (if n = 0 then NaN else Infinity (s \<noteq> t))"
| "fmul (Infinity s) (Infinity t) = Infinity (s \<noteq> t)"
| "fmul NaN y = NaN"
| "fmul x NaN = NaN"

fun fdiv :: "double \<Rightarrow> double \<Rightarrow> double" where
  "fdiv (Finite s m) (Finite t n) =
     (if n = 0 then (if m = 0 then NaN else Infinity (s \<noteq> t))
      else round64 (s \<noteq> t) (m / n))"
| "fdiv (Finite s m) (Infinity t) = Finite (s \<noteq> t) 0"
| "fdiv (Infinity s) (Finite t n) = Infinity (s \<noteq> t)"
| "fdiv (Infinity s) (Infinity t) = NaN"
| "fdiv NaN y = NaN"
| "fdiv x NaN = NaN"

text \<open>The constants of the source: \<^verbatim>\<open>0\<close>, \<^verbatim>\<open>50.0\<close> and \<^verbatim>\<open>100.0\<close>.\<close>

definition d0 :: double where
  "d0 = Finite False 0"

definition d50 :: double where
  "d50 = Finite False 50"

definition d100 :: double where
  "d100 = Finite False 100"

section \<open>The class \<^verbatim>\<open>BankAccount\<close>\<close>

text \<open>The five private data members, in the order of the class.\<close>

record BankAccount =
  accountNumber :: string
  accountHolder :: string
  balance :: double
  accountType :: string
  interestRate :: double

text \<open>
  The constructor assigns its five arguments to the five members and checks nothing.
  \<open>BankAccount_ctor3\<close> and \<open>BankAccount_ctor4\<close> are the calls that leave the default
  arguments \<^verbatim>\<open>type = "Savings"\<close> and \<^verbatim>\<open>rate = 0.0\<close> out.
\<close>

definition BankAccount_ctor ::
  "string \<Rightarrow> string \<Rightarrow> double \<Rightarrow> string \<Rightarrow> double \<Rightarrow> BankAccount" where
  "BankAccount_ctor accNum holder initialBalance atype rate =
     \<lparr>accountNumber = accNum, accountHolder = holder, balance = initialBalance,
      accountType = atype, interestRate = rate\<rparr>"

definition BankAccount_ctor4 :: "string \<Rightarrow> string \<Rightarrow> double \<Rightarrow> string \<Rightarrow> BankAccount" where
  "BankAccount_ctor4 accNum holder initialBalance atype =
     BankAccount_ctor accNum holder initialBalance atype (Finite False 0)"

definition BankAccount_ctor3 :: "string \<Rightarrow> string \<Rightarrow> double \<Rightarrow> BankAccount" where
  "BankAccount_ctor3 accNum holder initialBalance =
     BankAccount_ctor4 accNum holder initialBalance ''Savings''"

text \<open>
  A mutating method returns \<^verbatim>\<open>bool\<close> and, when it returns \<^verbatim>\<open>false\<close>, has printed
  which check failed. \<open>outcome\<close> is the return value together with that message:
  \<^item> \<open>Success\<close>: \<^verbatim>\<open>return true\<close>;
  \<^item> \<open>InvalidAmount\<close>: \<^verbatim>\<open>return false\<close> after "Invalid amount!" (deposit, withdraw) or
    "Invalid transfer amount!" (transfer);
  \<^item> \<open>InsufficientFunds\<close>: \<^verbatim>\<open>return false\<close> after "Insufficient funds";
  \<^item> \<open>InvalidInterestRate\<close>: \<^verbatim>\<open>return false\<close> after "Invalid interest rate!";
  \<^item> \<open>InvalidHolderName\<close>: \<^verbatim>\<open>return false\<close> after "Invalid name!".
  The other output of the methods is not modelled.
\<close>

datatype outcome =
  Success | InvalidAmount | InsufficientFunds | InvalidInterestRate | InvalidHolderName

definition returned :: "outcome \<Rightarrow> bool" where
  "returned r = (r = Success)"

definition isValidAmount :: "double \<Rightarrow> bool" where
  "isValidAmount amount = fgt amount d0"

definition setInterestRate :: "double \<Rightarrow> BankAccount \<Rightarrow> outcome \<times> BankAccount" where
  "setInterestRate rate a =
     (if fge rate d0 \<and> fle rate d50 then (Success, a\<lparr>interestRate := rate\<rparr>)
      else (InvalidInterestRate, a))"

definition setAccountHolder :: "string \<Rightarrow> BankAccount \<Rightarrow> outcome \<times> BankAccount" where
  "setAccountHolder newHolder a =
     (if newHolder \<noteq> [] then (Success, a\<lparr>accountHolder := newHolder\<rparr>)
      else (InvalidHolderName, a))"

definition deposit :: "double \<Rightarrow> BankAccount \<Rightarrow> outcome \<times> BankAccount" where
  "deposit amount a =
     (if \<not> isValidAmount amount then (InvalidAmount, a)
      else (Success, a\<lparr>balance := fadd (balance a) amount\<rparr>))"

definition withdraw :: "double \<Rightarrow> BankAccount \<Rightarrow> outcome \<times> BankAccount" where
  "withdraw amount a =
     (if \<not> isValidAmount amount then (InvalidAmount, a)
      else if fgt amount (balance a) then (InsufficientFunds, a)
      else (Success, a\<lparr>balance := fsub (balance a) amount\<rparr>))"

definition applyInterest :: "BankAccount \<Rightarrow> double \<times> BankAccount" where
  "applyInterest a =
     (let interestAmount = fdiv (fmul (balance a) (interestRate a)) d100
      in (interestAmount, a\<lparr>balance := fadd (balance a) interestAmount\<rparr>))"

subsection \<open>Two objects: \<^verbatim>\<open>transfer\<close>\<close>

text \<open>
  \<^verbatim>\<open>transfer\<close> writes to \<^verbatim>\<open>this\<close> and to the object its reference argument names, and
  C++ lets both be the same object. So the objects live in a store, an object is named
  by its address, and the second assignment reads the store the first one has written.
\<close>

type_synonym addr = nat

type_synonym store = "addr \<Rightarrow> BankAccount"

definition transfer :: "addr \<Rightarrow> addr \<Rightarrow> double \<Rightarrow> store \<Rightarrow> outcome \<times> store" where
  "transfer this toAccount amount h =
     (if \<not> isValidAmount amount then (InvalidAmount, h)
      else if fgt amount (balance (h this)) then (InsufficientFunds, h)
      else
        (let h1 = h(this := (h this)\<lparr>balance := fsub (balance (h this)) amount\<rparr>);
             h2 = h1(toAccount := (h1 toAccount)\<lparr>balance := fadd (balance (h1 toAccount)) amount\<rparr>)
         in (Success, h2)))"

text \<open>The store with object \<open>a\<close> at address 0 and object \<open>b\<close> at every other address.\<close>

definition store_of :: "BankAccount \<Rightarrow> BankAccount \<Rightarrow> store" where
  "store_of a b = (\<lambda>p. if p = 0 then a else b)"

subsection \<open>Sequences of calls\<close>

text \<open>
  A client of the class can only call its public methods, as \<^verbatim>\<open>main\<close> does. A \<open>call\<close> is
  one such call on the object at an address, \<open>exec\<close> runs it on the store and \<open>run\<close> runs
  a list of calls in order.
\<close>

datatype call =
  Deposit addr double
| Withdraw addr double
| Transfer addr addr double
| SetInterestRate addr double
| SetAccountHolder addr string
| ApplyInterest addr

fun exec :: "call \<Rightarrow> store \<Rightarrow> store" where
  "exec (Deposit p amount) h = h(p := snd (deposit amount (h p)))"
| "exec (Withdraw p amount) h = h(p := snd (withdraw amount (h p)))"
| "exec (Transfer p q amount) h = snd (transfer p q amount h)"
| "exec (SetInterestRate p rate) h = h(p := snd (setInterestRate rate (h p)))"
| "exec (SetAccountHolder p newHolder) h = h(p := snd (setAccountHolder newHolder (h p)))"
| "exec (ApplyInterest p) h = h(p := snd (applyInterest (h p)))"

fun run :: "call list \<Rightarrow> store \<Rightarrow> store" where
  "run [] h = h"
| "run (c # cs) h = run cs (exec c h)"

subsection \<open>The demonstration of \<^verbatim>\<open>main\<close>\<close>

text \<open>
  \<^verbatim>\<open>main\<close> constructs \<^verbatim>\<open>account1\<close> (here at address 0) and \<^verbatim>\<open>account2\<close> (at address 1) and
  makes ten calls on them.
\<close>

definition main_store :: store where
  "main_store =
     store_of
       (BankAccount_ctor ''ACC001'' ''John Doe'' (double_of_rat 5000) ''Savings'' (double_of_rat (7 / 2)))
       (BankAccount_ctor ''ACC002'' ''Jane Smith'' (double_of_rat 10000) ''Checking'' (double_of_rat 1))"

definition main_calls :: "call list" where
  "main_calls =
     [SetInterestRate 0 (double_of_rat (9 / 2)), SetInterestRate 0 (double_of_rat 75),
      SetAccountHolder 0 ''John Smith'', Deposit 0 (double_of_rat 2000),
      Deposit 0 (fneg (double_of_rat 1000)), Withdraw 0 (double_of_rat 3000),
      Withdraw 0 (double_of_rat 100000), ApplyInterest 0,
      Transfer 0 1 (double_of_rat 500), Transfer 0 1 (double_of_rat 50000)]"

text \<open>
  The scenario of the specification on the same two accounts: deposit 2000, withdraw
  3000, withdraw 100000, apply the interest, transfer 500 to the second account.
\<close>

definition scenario_calls :: "call list" where
  "scenario_calls =
     [Deposit 0 (Finite False 2000), Withdraw 0 (Finite False 3000),
      Withdraw 0 (Finite False 100000), ApplyInterest 0, Transfer 0 1 (Finite False 500)]"

text \<open>
  An account whose two numbers are binary64 numbers, and a call that does not pass
  anything else to \<^verbatim>\<open>setInterestRate\<close>.
\<close>

definition numbers_ok :: "BankAccount \<Rightarrow> bool" where
  "numbers_ok a = (is_double (balance a) \<and> is_double (interestRate a))"

fun rate_is_double :: "call \<Rightarrow> bool" where
  "rate_is_double (SetInterestRate p rate) = is_double rate"
| "rate_is_double c = True"

text \<open>The range that \<^verbatim>\<open>setInterestRate\<close> accepts, as a property of an account.\<close>

definition rate_in_range :: "BankAccount \<Rightarrow> bool" where
  "rate_in_range a = (fle d0 (interestRate a) \<and> fle (interestRate a) d50)"

section \<open>Properties of the arithmetic\<close>

subsection \<open>The binary exponent and rounding\<close>

lemma ilog2_bounds:
  assumes "0 < x"
  shows "2 powi ilog2 x \<le> x \<and> x < 2 powi (ilog2 x + 1)"
proof (cases "1 \<le> x")
  case True
  define n where "n = \<lfloor>x\<rfloor>"
  have npos: "0 < n"
    using True by (simp add: n_def)
  have bl: "1 \<le> bitlen n"
    using npos bitlen_eq_zero_iff [of n] bitlen_nonneg [of n] by linarith
  have lo: "2 ^ nat (bitlen n - 1) \<le> n" and hi: "n < 2 ^ nat (bitlen n)"
    using bitlen_bounds [OF npos] by auto
  have e: "ilog2 x = bitlen n - 1"
    using True by (simp add: ilog2_def n_def)
  have "(2::rat) powi (bitlen n - 1) = of_int (2 ^ nat (bitlen n - 1))"
    using bl by (simp add: power_int_nonneg_exp)
  also have "\<dots> \<le> of_int n"
    using lo by (simp only: of_int_le_iff)
  also have "of_int n \<le> x"
    by (simp add: n_def)
  finally have A: "2 powi ilog2 x \<le> x"
    by (simp add: e)
  have "x < of_int (n + 1)"
    using floor_correct [of x] by (simp add: n_def)
  also have "(of_int (n + 1) :: rat) \<le> of_int (2 ^ nat (bitlen n))"
    using hi by (simp only: of_int_le_iff add1_zle_eq)
  
  also have "(of_int (2 ^ nat (bitlen n)) :: rat) = 2 powi (bitlen n - 1 + 1)"
    using bl by (simp add: power_int_nonneg_exp)
  finally have B: "x < 2 powi (ilog2 x + 1)"
    by (simp add: e)
  show ?thesis
    using A B by simp
next
  case False
  define m where "m = \<lceil>1 / x\<rceil> - 1"
  define k where "k = bitlen m"
  have y1: "1 < 1 / x"
    using False assms by simp
  have mpos: "0 < m"
    using y1 by (simp add: m_def less_ceiling_iff)
  have kpos: "1 \<le> k"
    using mpos bitlen_eq_zero_iff [of m] bitlen_nonneg [of m] unfolding k_def by linarith
  have lo: "2 ^ nat (k - 1) \<le> m" and hi: "m < 2 ^ nat k"
    using bitlen_bounds [OF mpos] by (auto simp: k_def)
  have e: "ilog2 x = - k"
    using False by (simp add: ilog2_def m_def k_def)
  have "1 / x \<le> of_int (m + 1)"
    by (simp add: m_def)
  also have "(of_int (m + 1) :: rat) \<le> of_int (2 ^ nat k)"
    using hi by (simp only: of_int_le_iff add1_zle_eq)
  finally have up: "1 / x \<le> 2 ^ nat k"
    by simp
  have "(2::rat) powi (- k) = 1 / 2 ^ nat k"
    using kpos by (simp add: power_int_minus power_int_nonneg_exp field_simps)
  also have "\<dots> \<le> x"
    using up assms by (simp add: field_simps)
  finally have A: "2 powi ilog2 x \<le> x"
    by (simp add: e)
  have "(of_int (2 ^ nat (k - 1)) :: rat) \<le> of_int m"
    using lo by (simp only: of_int_le_iff)
  also have "of_int m < 1 / x"
    using ceiling_correct [of "1 / x"] by (simp add: m_def)
  finally have dn: "2 ^ nat (k - 1) < 1 / x"
    by simp
  have "x < 1 / 2 ^ nat (k - 1)"
    using dn assms by (simp add: field_simps)
  also have "1 / 2 ^ nat (k - 1) = (2::rat) powi (- k + 1)"
    using kpos power_int_minus [of "2::rat" "k - 1"] by (simp add: power_int_nonneg_exp field_simps)
  finally have B: "x < 2 powi (ilog2 x + 1)"
    by (simp add: e)
  show ?thesis
    using A B by simp
qed

lemma ilog2_ge_iff:
  assumes "0 < x"
  shows "(n \<le> ilog2 x) = (2 powi n \<le> x)"
proof
  assume "n \<le> ilog2 x"
  then have "(2::rat) powi n \<le> 2 powi ilog2 x"
    by (simp add: power_int_increasing)
  then show "2 powi n \<le> x"
    using ilog2_bounds [OF assms] by simp
next
  assume le: "2 powi n \<le> x"
  show "n \<le> ilog2 x"
  proof (rule ccontr)
    assume "\<not> n \<le> ilog2 x"
    then have "ilog2 x + 1 \<le> n"
      by simp
    then have "(2::rat) powi (ilog2 x + 1) \<le> 2 powi n"
      by (simp add: power_int_increasing)
    then show False
      using ilog2_bounds [OF assms] le by simp
  qed
qed

lemma ilog2_mono: "0 < x \<Longrightarrow> x \<le> y \<Longrightarrow> ilog2 x \<le> ilog2 y"
  using ilog2_ge_iff [of y "ilog2 x"] ilog2_bounds [of x] by simp

lemma ilog2_unique:
  assumes "0 < x" and "2 powi e \<le> x" and "x < 2 powi (e + 1)"
  shows "ilog2 x = e"
proof -
  have "e \<le> ilog2 x"
    using assms by (simp add: ilog2_ge_iff)
  moreover have "\<not> e + 1 \<le> ilog2 x"
    using assms by (simp add: ilog2_ge_iff)
  ultimately show ?thesis
    by simp
qed

lemma round_half_even_cases:
  "round_half_even x = \<lfloor>x\<rfloor> \<or> round_half_even x = \<lfloor>x\<rfloor> + 1"
  by (simp add: round_half_even_def Let_def)

lemma round_half_even_of_int: "round_half_even (of_int n) = n"
  by (simp add: round_half_even_def)

lemma round_half_even_mono:
  assumes "x \<le> y"
  shows "round_half_even x \<le> round_half_even y"
proof (cases "\<lfloor>x\<rfloor> = \<lfloor>y\<rfloor>")
  case True
  then show ?thesis
    using assms by (auto simp: round_half_even_def Let_def)
next
  case False
  then have "\<lfloor>x\<rfloor> + 1 \<le> \<lfloor>y\<rfloor>"
    using floor_mono [OF assms] by simp
  then show ?thesis
    using round_half_even_cases [of x] round_half_even_cases [of y] by auto
qed

lemma round_half_even_nearest: "\<bar>of_int (round_half_even x) - x\<bar> \<le> 1 / 2"
proof -
  have "of_int \<lfloor>x\<rfloor> \<le> x" and "x < of_int \<lfloor>x\<rfloor> + 1"
    using floor_correct [of x] by simp_all
  then show ?thesis
    by (auto simp: round_half_even_def Let_def abs_le_iff)
qed

lemma round_mag_le_pow:
  assumes "0 < x" and "x \<le> 2 powi n" and "ulp_exp x \<le> n"
  shows "round_mag x \<le> 2 powi n"
proof -
  define q where "q = ulp_exp x"
  have pw: "(2::rat) powi n = of_int (2 ^ nat (n - q)) * 2 powi q"
    using assms(3) power_int_add [of "2::rat" "n - q" q]
    by (simp add: q_def power_int_nonneg_exp)
  have "x / 2 powi q \<le> of_int (2 ^ nat (n - q))"
    using assms(2) by (simp add: pw field_simps)
  then have "round_half_even (x / 2 powi q) \<le> 2 ^ nat (n - q)"
    using round_half_even_mono round_half_even_of_int by metis
  then have "(of_int (round_half_even (x / 2 powi q)) :: rat) \<le> of_int (2 ^ nat (n - q))"
    by (simp only: of_int_le_iff)
  then have "of_int (round_half_even (x / 2 powi q)) * 2 powi q \<le> of_int (2 ^ nat (n - q)) * (2::rat) powi q"
    by (simp add: mult_right_mono)
  then show ?thesis
    using assms(1) by (simp add: round_mag_def pw q_def)
qed

lemma round_mag_ge_pow:
  assumes "0 < x" and "2 powi n \<le> x" and "ulp_exp x \<le> n"
  shows "2 powi n \<le> round_mag x"
proof -
  define q where "q = ulp_exp x"
  have pw: "(2::rat) powi n = of_int (2 ^ nat (n - q)) * 2 powi q"
    using assms(3) power_int_add [of "2::rat" "n - q" q]
    by (simp add: q_def power_int_nonneg_exp)
  have "of_int (2 ^ nat (n - q)) \<le> x / 2 powi q"
    using assms(2) by (simp add: pw field_simps)
  then have "2 ^ nat (n - q) \<le> round_half_even (x / 2 powi q)"
    using round_half_even_mono round_half_even_of_int by metis
  then have "(of_int (2 ^ nat (n - q)) :: rat) \<le> of_int (round_half_even (x / 2 powi q))"
    by (simp only: of_int_le_iff)
  then have "of_int (2 ^ nat (n - q)) * (2::rat) powi q \<le> of_int (round_half_even (x / 2 powi q)) * 2 powi q"
    by (simp add: mult_right_mono)
  then show ?thesis
    using assms(1) by (simp add: round_mag_def pw q_def)
qed

lemma round_mag_nonneg: "0 \<le> x \<Longrightarrow> 0 \<le> round_mag x"
proof -
  assume "0 \<le> x"
  then have "0 \<le> x / 2 powi ulp_exp x"
    by simp
  then have "round_half_even (of_int 0) \<le> round_half_even (x / 2 powi ulp_exp x)"
    by (intro round_half_even_mono) simp
  then have "0 \<le> round_half_even (x / 2 powi ulp_exp x)"
    by (simp only: round_half_even_of_int)
  then show ?thesis
    by (simp add: round_mag_def)
qed

lemma round_mag_mono:
  assumes "0 \<le> x" and "x \<le> y"
  shows "round_mag x \<le> round_mag y"
proof (cases "x = 0")
  case True
  then show ?thesis
    using assms round_mag_nonneg [of y] by (simp add: round_mag_def)
next
  case False
  then have xpos: "0 < x" and ypos: "0 < y"
    using assms by simp_all
  have emono: "ilog2 x \<le> ilog2 y"
    using xpos assms(2) by (rule ilog2_mono)
  show ?thesis
  proof (cases "ulp_exp x = ulp_exp y")
    case True
    have "x / 2 powi ulp_exp y \<le> y / 2 powi ulp_exp y"
      using assms(2) by (simp add: divide_right_mono)
    then have "(of_int (round_half_even (x / 2 powi ulp_exp y)) :: rat)
        \<le> of_int (round_half_even (y / 2 powi ulp_exp y))"
      by (simp only: of_int_le_iff round_half_even_mono)
    then show ?thesis
      using xpos ypos True by (simp add: round_mag_def mult_right_mono)
  next
    case False
    then have lt: "ilog2 x < ilog2 y" and big: "- 1022 < ilog2 y"
      using emono by (auto simp: ulp_exp_def max_def split: if_splits)
    have "x < 2 powi (ilog2 x + 1)"
      using ilog2_bounds [OF xpos] by simp
    also have "(2::rat) powi (ilog2 x + 1) \<le> 2 powi ilog2 y"
      using lt by (simp add: power_int_increasing)
    finally have "x \<le> 2 powi ilog2 y"
      by simp
    moreover have "ulp_exp x \<le> ilog2 y"
      using lt big by (simp add: ulp_exp_def max_def)
    ultimately have A: "round_mag x \<le> 2 powi ilog2 y"
      using xpos by (simp add: round_mag_le_pow)
    have "2 powi ilog2 y \<le> y"
      using ilog2_bounds [OF ypos] by simp
    moreover have "ulp_exp y \<le> ilog2 y"
      using big by (simp add: ulp_exp_def max_def)
    ultimately have B: "2 powi ilog2 y \<le> round_mag y"
      using ypos by (simp add: round_mag_ge_pow)
    show ?thesis
      using A B by simp
  qed
qed

lemma round64_overflow: "(round64 s x = Infinity s) = (2 ^ 1024 \<le> round_mag x)"
proof (cases "0 < round_mag x")
  case True
  then show ?thesis
    using ilog2_ge_iff [of "round_mag x" 1024] by (simp add: round64_def Let_def)
next
  case False
  have "(0::rat) < 2 ^ 1024"
    by simp
  then have "\<not> 2 ^ 1024 \<le> round_mag x"
    using False by linarith
  then show ?thesis
    using False by (simp add: round64_def Let_def)
qed

lemma is_double_round_mag: "is_double (Finite s m) \<Longrightarrow> round_mag m = m"
  by (auto simp: round64_def Let_def split: if_splits)

lemma round64_zero: "round64 s 0 = Finite s 0"
  by (simp add: round64_def round_mag_def)

lemma round64_nonneg:
  "0 \<le> x \<Longrightarrow> round64 s x = Infinity s \<or> (\<exists>m. round64 s x = Finite s m \<and> 0 \<le> m)"
  by (simp add: round64_def Let_def round_mag_nonneg)

lemma nonneg_round64: "0 \<le> x \<Longrightarrow> (s \<longrightarrow> x = 0) \<Longrightarrow> nonneg (round64 s x)"
  using round64_nonneg [of x s] by (cases s) (auto simp: round64_zero)

lemma nonneg_if_ge_zero: "is_double x \<Longrightarrow> fle d0 x \<Longrightarrow> nonneg x"
  by (cases x) (auto simp: d0_def split: if_splits)

lemma nonneg_ge_zero: "nonneg x \<Longrightarrow> fle d0 x"
  by (cases x) (auto simp: d0_def)

lemma nonneg_fmul: "nonneg x \<Longrightarrow> nonneg y \<Longrightarrow> fmul x y \<noteq> NaN \<Longrightarrow> nonneg (fmul x y)"
  by (cases x; cases y) (auto intro!: nonneg_round64 split: if_splits)

lemma nonneg_fdiv_100: "nonneg x \<Longrightarrow> nonneg (fdiv x d100)"
  by (cases x) (auto simp: d100_def intro!: nonneg_round64)

lemma fle_fadd_nonneg:
  assumes "is_double x" and "fle d0 x" and "nonneg y"
  shows "fle x (fadd x y)"
proof (cases x)
  case (Finite s m)
  then have m: "0 \<le> m" "round_mag m = m" "s \<longrightarrow> m = 0"
    using assms(1,2) is_double_round_mag [of s m] by (auto simp: d0_def split: if_splits)
  show ?thesis
  proof (cases y)
    case (Finite t n)
    then have n: "0 \<le> n" "t \<longrightarrow> n = 0"
      using assms(3) by auto
    have v: "valof x + valof y = m + n" "valof x = m"
      using m n Finite \<open>x = Finite s m\<close> by auto
    show ?thesis
    proof (cases "m + n = 0")
      case True
      then show ?thesis
        using v m n Finite \<open>x = Finite s m\<close> by (auto simp: Let_def)
    next
      case False
      then have pos: "0 < m + n"
        using m n by linarith
      have "round_mag m \<le> round_mag (m + n)"
        using m n by (intro round_mag_mono) auto
      then have "fle x (round64 False (m + n))"
        using m \<open>x = Finite s m\<close> by (auto simp: round64_def Let_def)
      moreover have "fadd x y = round64 False (m + n)"
        using v pos False Finite \<open>x = Finite s m\<close> by (auto simp: Let_def)
      ultimately show ?thesis
        by simp
    qed
  next
    case (Infinity t)
    then show ?thesis
      using assms(3) \<open>x = Finite s m\<close> by auto
  next
    case NaN
    then show ?thesis
      using assms(3) by simp
  qed
next
  case (Infinity s)
  then show ?thesis
    using assms(2,3) by (cases y) (auto simp: d0_def)
next
  case NaN
  then show ?thesis
    using assms(2) by (simp add: d0_def)
qed

lemma fle_trans: "fle x y \<Longrightarrow> fle y z \<Longrightarrow> fle x z"
  by (cases x; cases y; cases z) auto

subsection \<open>The binary64 numbers\<close>

text \<open>
  Rounding a rounded magnitude changes nothing, so every result of an operation is a
  binary64 number in the sense of \<open>is_double\<close>; and the finite numbers that
  \<open>is_double\<close> accepts are the usual ones: an integer below \<open>2 ^ 53\<close> times a power of two
  with an exponent from \<open>- 1074\<close> to \<open>971\<close>.
\<close>

lemma round_mag_idem:
  assumes "0 \<le> x"
  shows "round_mag (round_mag x) = round_mag x"
proof (cases "round_mag x = 0")
  case True
  then show ?thesis
    by (simp add: round_mag_def)
next
  case False
  define y where "y = round_mag x"
  have xpos: "0 < x"
    using False assms by (auto simp: round_mag_def less_le)
  have ypos: "0 < y"
    using False round_mag_nonneg [OF assms] by (simp add: y_def)
  define k where "k = round_half_even (x / 2 powi ulp_exp x)"
  have yk: "y = of_int k * 2 powi ulp_exp x"
    using xpos by (simp add: y_def k_def round_mag_def)
  have integral: "\<exists>n. y / 2 powi ulp_exp y = of_int n"
  proof (cases "ulp_exp y = ulp_exp x")
    case True
    then show ?thesis
      by (simp add: yk)
  next
    case False
    have "\<not> ulp_exp y < ulp_exp x"
    proof
      assume "ulp_exp y < ulp_exp x"
      then have big: "- 1022 < ilog2 x" and lt: "ilog2 y < ilog2 x"
        by (auto simp: ulp_exp_def max_def split: if_splits)
      have "2 powi ilog2 x \<le> x" and "ulp_exp x \<le> ilog2 x"
        using ilog2_bounds [OF xpos] big by (simp_all add: ulp_exp_def max_def)
      then have "2 powi ilog2 x \<le> y"
        using xpos by (simp add: y_def round_mag_ge_pow)
      then have "ilog2 x \<le> ilog2 y"
        using ypos by (simp add: ilog2_ge_iff)
      then show False
        using lt by simp
    qed
    then have less: "ulp_exp x < ulp_exp y"
      using False by simp
    then have big: "- 1022 < ilog2 y" and lt: "ilog2 x < ilog2 y"
      by (auto simp: ulp_exp_def max_def split: if_splits)
    have q': "ulp_exp y = ilog2 y - 52"
      using big by (simp add: ulp_exp_def max_def)
    have "x < 2 powi (ilog2 x + 1)"
      using ilog2_bounds [OF xpos] by simp
    also have "(2::rat) powi (ilog2 x + 1) \<le> 2 powi ilog2 y"
      using lt by (simp add: power_int_increasing)
    finally have "x \<le> 2 powi ilog2 y"
      by simp
    moreover have "ulp_exp x \<le> ilog2 y"
      using less q' by simp
    ultimately have "y \<le> 2 powi ilog2 y"
      using xpos by (simp add: y_def round_mag_le_pow)
    then have "y = 2 powi ilog2 y"
      using ilog2_bounds [OF ypos] by simp
    then have "y / 2 powi ulp_exp y = 2 powi ilog2 y / 2 powi (ilog2 y - 52)"
      by (simp add: q')
    also have "\<dots> = 2 powi 52"
      using power_int_diff [of "2::rat" "ilog2 y" "ilog2 y - 52"] by simp
    also have "\<dots> = of_int (2 ^ 52)"
      by simp
    finally show ?thesis
      by blast
  qed
  then obtain n where n: "y / 2 powi ulp_exp y = of_int n"
    by blast
  have "round_mag y = of_int n * 2 powi ulp_exp y"
    using ypos by (simp add: round_mag_def n round_half_even_of_int)
  also have "\<dots> = y"
    using n by (simp add: field_simps)
  finally show ?thesis
    by (simp add: y_def)
qed

lemma is_double_round64: "0 \<le> x \<Longrightarrow> is_double (round64 s x)"
  by (simp add: round64_def Let_def round_mag_idem round_mag_nonneg)

lemma is_double_zero: "is_double (Finite s 0)"
  by (simp add: round64_zero)

lemma is_double_mag: "is_double (Finite s m) \<Longrightarrow> 0 \<le> m"
  by simp

lemma is_double_fneg: "is_double x \<Longrightarrow> is_double (fneg x)"
  by (cases x) (auto simp: round64_def Let_def split: if_splits)

lemma is_double_fadd: "is_double (fadd x y)"
proof (cases x)
  case x: (Finite s m)
  show ?thesis
  proof (cases y)
    case (Finite t n)
    show ?thesis
      unfolding x Finite fadd.simps Let_def
      by (simp add: is_double_zero is_double_round64 del: is_double.simps valof.simps)
  qed (simp_all add: x)
next
  case (Infinity s)
  then show ?thesis
    by (cases y) simp_all
next
  case NaN
  then show ?thesis
    by simp
qed

lemma is_double_fsub: "is_double (fsub x y)"
  by (simp add: fsub_def is_double_fadd)

lemma is_double_fmul:
  assumes "is_double x" and "is_double y"
  shows "is_double (fmul x y)"
proof (cases x)
  case x: (Finite s m)
  show ?thesis
  proof (cases y)
    case (Finite t n)
    have "0 \<le> m * n"
      using assms is_double_mag x Finite by simp
    then show ?thesis
      unfolding x Finite fmul.simps by (rule is_double_round64)
  qed (simp_all add: x)
next
  case (Infinity s)
  then show ?thesis
    by (cases y) simp_all
next
  case NaN
  then show ?thesis
    by simp
qed

lemma is_double_fdiv:
  assumes "is_double x" and "is_double y"
  shows "is_double (fdiv x y)"
proof (cases x)
  case x: (Finite s m)
  show ?thesis
  proof (cases y)
    case (Finite t n)
    have "0 \<le> m / n"
      using assms is_double_mag x Finite by simp
    then have "is_double (round64 (s \<noteq> t) (m / n))"
      by (rule is_double_round64)
    then show ?thesis
      unfolding x Finite by (cases "n = 0") simp_all
  next
    case (Infinity t)
    then show ?thesis
      unfolding x by (simp add: round64_zero)
  next
    case NaN
    then show ?thesis
      unfolding x by simp
  qed
next
  case (Infinity s)
  then show ?thesis
    by (cases y) simp_all
next
  case NaN
  then show ?thesis
    by simp
qed

lemma is_double_of_rat: "is_double (double_of_rat v)"
  by (simp add: double_of_rat_def is_double_round64)

lemma is_double_iff:
  "is_double (Finite s m) =
   (\<exists>k e. m = of_int k * 2 powi e \<and> 0 \<le> k \<and> k < 2 ^ 53 \<and> - 1074 \<le> e \<and> e \<le> 971)"
proof
  assume d: "is_double (Finite s m)"
  then have m0: "0 \<le> m" and idem: "round_mag m = m" and fin: "\<not> (0 < m \<and> 1024 \<le> ilog2 m)"
    by (auto simp: round64_def Let_def split: if_splits)
  show "\<exists>k e. m = of_int k * 2 powi e \<and> 0 \<le> k \<and> k < 2 ^ 53 \<and> - 1074 \<le> e \<and> e \<le> 971"
  proof (cases "m = 0")
    case True
    then have "m = of_int 0 * 2 powi 0 \<and> (0::int) \<le> 0 \<and> (0::int) < 2 ^ 53 \<and> - 1074 \<le> (0::int) \<and> (0::int) \<le> 971"
      by simp
    then show ?thesis
      by blast
  next
    case False
    then have mpos: "0 < m"
      using m0 by simp
    define q where "q = ulp_exp m"
    define k where "k = round_half_even (m / 2 powi q)"
    have mk: "m = of_int k * 2 powi q"
      using idem False by (simp add: round_mag_def k_def q_def)
    have E: "ilog2 m \<le> 1023"
      using fin mpos by simp
    have q1: "- 1074 \<le> q" and q2: "q \<le> 971" and q3: "ilog2 m + 1 - q \<le> 53"
      using E by (simp_all add: q_def ulp_exp_def max_def)
    have kpos: "0 \<le> k"
    proof -
      have "0 < (of_int k :: rat) * 2 powi q"
        using mpos mk by simp
      moreover have "0 < (2::rat) powi q"
        by simp
      ultimately have "0 < (of_int k :: rat)"
        by (simp add: zero_less_mult_iff)
      then show ?thesis
        by simp
    qed
    have "m < 2 powi (ilog2 m + 1)"
      using ilog2_bounds [OF mpos] by simp
    also have "(2::rat) powi (ilog2 m + 1) \<le> 2 powi (q + 53)"
      using q3 by (simp add: power_int_increasing)
    also have "(2::rat) powi (q + 53) = of_int (2 ^ 53) * 2 powi q"
      using power_int_add [of "2::rat" 53 q] by (simp add: add.commute)
    finally have "(of_int k :: rat) * 2 powi q < of_int (2 ^ 53) * 2 powi q"
      using mk by simp
    then have "(of_int k :: rat) < of_int (2 ^ 53)"
      by (simp add: mult_less_cancel_right)
    then have "k < 2 ^ 53"
      by (simp only: of_int_less_iff)
    then show ?thesis
      using mk kpos q1 q2 by blast
  qed
next
  assume "\<exists>k e. m = of_int k * 2 powi e \<and> 0 \<le> k \<and> k < 2 ^ 53 \<and> - 1074 \<le> e \<and> e \<le> 971"
  then obtain k e where mk: "m = of_int k * 2 powi e" and k0: "0 \<le> k" and k1: "k < 2 ^ 53"
    and e0: "- 1074 \<le> e" and e1: "e \<le> 971"
    by blast
  have m0: "0 \<le> m"
    using mk k0 by simp
  show "is_double (Finite s m)"
  proof (cases "m = 0")
    case True
    then show ?thesis
      by (simp add: round64_zero)
  next
    case False
    then have mpos: "0 < m"
      using m0 by simp
    have lt53: "(of_int k :: rat) < of_int (2 ^ 53)"
      using k1 by (simp only: of_int_less_iff)
    have "m < of_int (2 ^ 53) * 2 powi e"
      unfolding mk by (rule mult_strict_right_mono [OF lt53]) simp
    also have "of_int (2 ^ 53) * 2 powi e = (2::rat) powi (e + 53)"
      using power_int_add [of "2::rat" 53 e] by (simp add: add.commute)
    finally have up: "m < 2 powi (e + 53)" .
    have lt: "ilog2 m < e + 53"
      using up ilog2_ge_iff [OF mpos, of "e + 53"] by simp
    define q where "q = ulp_exp m"
    have qe: "q \<le> e"
      using lt e0 by (simp add: q_def ulp_exp_def max_def)
    have "m / 2 powi q = of_int k * (2 powi e / 2 powi q)"
      by (simp add: mk)
    also have "2 powi e / (2::rat) powi q = 2 powi (e - q)"
      using power_int_diff [of "2::rat" e q] by simp
    also have "\<dots> = of_int (2 ^ nat (e - q))"
      using qe by (simp add: power_int_nonneg_exp)
    finally have "m / 2 powi q = of_int (k * 2 ^ nat (e - q))"
      by simp
    then have "round_mag m = of_int (k * 2 ^ nat (e - q)) * 2 powi q"
      using False by (simp only: round_mag_def q_def round_half_even_of_int if_False)
    also have "\<dots> = m / 2 powi q * 2 powi q"
      using \<open>m / 2 powi q = of_int (k * 2 ^ nat (e - q))\<close> by simp
    also have "\<dots> = m"
      by simp
    finally have idem: "round_mag m = m" .
    have "(2::rat) powi (e + 53) \<le> 2 powi 1024"
      using e1 by (intro power_int_increasing) simp_all
    then have "m < 2 powi 1024"
      using up by simp
    then have "\<not> 1024 \<le> ilog2 m"
      using ilog2_ge_iff [OF mpos, of 1024] by simp
    then show ?thesis
      using m0 idem by (simp add: round64_def Let_def)
  qed
qed

subsection \<open>Comparisons\<close>

lemma not_fgt_iff_fle: "x \<noteq> NaN \<Longrightarrow> y \<noteq> NaN \<Longrightarrow> (\<not> fgt x y) = fle x y"
  by (cases x; cases y) (auto simp: fgt_def)

lemma fgt_not_NaN: "fgt x y \<Longrightarrow> x \<noteq> NaN \<and> y \<noteq> NaN"
  by (cases x; cases y) (auto simp: fgt_def)

lemma fle_imp_not_fgt: "fle x y \<Longrightarrow> \<not> fgt x y"
  by (cases x; cases y) (auto simp: fgt_def)

lemma fle_finite_left: "fle x y \<Longrightarrow> fgt x d0 \<Longrightarrow> is_finite y \<Longrightarrow> is_finite x"
  by (cases x; cases y) (auto simp: fgt_def d0_def)

lemma range_iff:
  "(fle d0 rate \<and> fle rate d50) =
   (case rate of Finite s m \<Rightarrow> 0 \<le> valof rate \<and> valof rate \<le> 50
    | Infinity s \<Rightarrow> False | NaN \<Rightarrow> False)"
  by (cases rate) (auto simp: d0_def d50_def)

subsection \<open>Operations that do not round\<close>

lemma fadd_exact:
  "is_finite x \<Longrightarrow> is_finite y \<Longrightarrow> representable (valof x + valof y) \<Longrightarrow>
   valof (fadd x y) = valof x + valof y"
  by (cases x; cases y) (auto simp: representable_def Let_def)

lemma valof_fneg: "valof (fneg y) = - valof y"
  by (cases y) auto

lemma is_finite_fneg: "is_finite (fneg y) = is_finite y"
  by (cases y) auto

lemma fsub_exact:
  "is_finite x \<Longrightarrow> is_finite y \<Longrightarrow> representable (valof x - valof y) \<Longrightarrow>
   valof (fsub x y) = valof x - valof y"
  using fadd_exact [of x "fneg y"] by (simp add: fsub_def valof_fneg is_finite_fneg)

lemma round64_representable:
  "0 \<le> x \<Longrightarrow> representable (if s then - x else x) \<Longrightarrow> round64 t x = Finite t x"
  by (cases s) (auto simp: representable_def round64_def Let_def split: if_splits)

lemma fmul_exact:
  assumes "is_double x" and "is_double y" and "is_finite x" and "is_finite y"
    and "representable (valof x * valof y)"
  shows "is_finite (fmul x y) \<and> valof (fmul x y) = valof x * valof y"
proof -
  obtain s m t n where x: "x = Finite s m" and y: "y = Finite t n"
    using assms(3,4) by (cases x; cases y) auto
  have mn: "0 \<le> m * n"
    using assms(1,2) is_double_mag x y by simp
  have "representable (if s \<noteq> t then - (m * n) else m * n)"
    using assms(5) by (auto simp: x y)
  then have "round64 (s \<noteq> t) (m * n) = Finite (s \<noteq> t) (m * n)"
    using mn by (rule round64_representable [rotated])
  then show ?thesis
    by (auto simp: x y)
qed

lemma fdiv_exact:
  assumes "is_double x" and "is_double y" and "is_finite x" and "is_finite y"
    and "valof y \<noteq> 0" and "representable (valof x / valof y)"
  shows "is_finite (fdiv x y) \<and> valof (fdiv x y) = valof x / valof y"
proof -
  obtain s m t n where x: "x = Finite s m" and y: "y = Finite t n"
    using assms(3,4) by (cases x; cases y) auto
  have n0: "n \<noteq> 0"
    using assms(5) by (cases t) (auto simp: y)
  have mn: "0 \<le> m / n"
    using assms(1,2) is_double_mag x y by simp
  have "representable (if s \<noteq> t then - (m / n) else m / n)"
    using assms(6) by (auto simp: x y)
  then have "round64 (s \<noteq> t) (m / n) = Finite (s \<noteq> t) (m / n)"
    using mn by (rule round64_representable [rotated])
  then show ?thesis
    using n0 by (auto simp: x y)
qed

lemma is_double_100: "is_double d100"
  unfolding d100_def by code_simp

lemma applyInterest_exact:
  assumes "is_double (balance a)" and "is_double (interestRate a)"
    and "is_finite (balance a)" and "is_finite (interestRate a)"
    and "representable (valof (balance a) * valof (interestRate a))"
    and "representable (valof (balance a) * valof (interestRate a) / 100)"
    and "representable (valof (balance a) + valof (balance a) * valof (interestRate a) / 100)"
  shows "valof (fadd (balance a) (fdiv (fmul (balance a) (interestRate a)) d100)) =
    valof (balance a) * (1 + valof (interestRate a) / 100)"
proof -
  let ?p = "fmul (balance a) (interestRate a)"
  let ?i = "fdiv ?p d100"
  have p: "is_finite ?p" "valof ?p = valof (balance a) * valof (interestRate a)"
    using fmul_exact [OF assms(1,2,3,4,5)] by simp_all
  have v100: "valof d100 = 100" "is_finite d100"
    by (simp_all add: d100_def)
  have "representable (valof ?p / valof d100)"
    using assms(6) by (simp only: p v100)
  then have i: "is_finite ?i" "valof ?i = valof ?p / valof d100"
    using fdiv_exact [of ?p d100] assms(1,2) p(1) v100
    by (simp_all add: is_double_fmul is_double_100 del: is_double.simps)
  have vi: "valof ?i = valof (balance a) * valof (interestRate a) / 100"
    by (simp only: i p v100)
  have "representable (valof (balance a) + valof ?i)"
    using assms(7) by (simp only: vi)
  then have "valof (fadd (balance a) ?i) = valof (balance a) + valof ?i"
    using assms(3) i(1) by (simp add: fadd_exact)
  then show ?thesis
    by (simp add: vi algebra_simps)
qed

lemma round64_not_NaN: "round64 s x \<noteq> NaN"
  by (simp add: round64_def Let_def)

lemma fmul_NaN_iff:
  "x \<noteq> NaN \<Longrightarrow> y \<noteq> NaN \<Longrightarrow>
   (fmul x y = NaN) =
     (is_finite x \<and> valof x = 0 \<and> \<not> is_finite y \<or> \<not> is_finite x \<and> is_finite y \<and> valof y = 0)"
  by (cases x; cases y) (auto simp: round64_not_NaN)

subsection \<open>The literals and the sums of the examples\<close>

lemma lit_0: "double_of_rat 0 = Finite False 0"
  by code_simp

lemma lit_1: "double_of_rat 1 = Finite False 1"
  by code_simp

lemma lit_2: "double_of_rat 2 = Finite False 2"
  by code_simp

lemma lit_3: "double_of_rat 3 = Finite False 3"
  by code_simp

lemma lit_50: "double_of_rat 50 = Finite False 50"
  by code_simp

lemma lit_75: "double_of_rat 75 = Finite False 75"
  by code_simp

lemma lit_175: "double_of_rat 175 = Finite False 175"
  by code_simp

lemma lit_4000: "double_of_rat 4000 = Finite False 4000"
  by code_simp

lemma lit_5000: "double_of_rat 5000 = Finite False 5000"
  by code_simp

lemma lit_5175: "double_of_rat 5175 = Finite False 5175"
  by code_simp

lemma lit_10000: "double_of_rat 10000 = Finite False 10000"
  by code_simp

lemma lit_100000: "double_of_rat 100000 = Finite False 100000"
  by code_simp

lemma lit_2_53: "double_of_rat 9007199254740992 = Finite False 9007199254740992"
  by code_simp

lemma lit_3_5: "double_of_rat (7 / 2) = Finite False (7 / 2)"
  by code_simp

lemma lit_50_0001:
  "double_of_rat (500001 / 10000) = Finite False (1759222122878809 / 35184372088832)"
  by code_simp

lemma lit_0_0001:
  "double_of_rat (1 / 10000) = Finite False (7378697629483821 / 73786976294838206464)"
  by code_simp

lemma is_double_5000: "is_double (Finite False 5000)"
  by code_simp

lemma is_double_3_5: "is_double (Finite False (7 / 2))"
  by code_simp

lemma interest_5000:
  "fdiv (fmul (Finite False 5000) (Finite False (7 / 2))) d100 = Finite False 175"
  by code_simp

lemma add_5000_175: "fadd (Finite False 5000) (Finite False 175) = Finite False 5175"
  by code_simp

lemma sub_2_1: "fsub (Finite False 2) (Finite False 1) = Finite False 1"
  by code_simp

lemma add_2_53_1:
  "fadd (Finite False 9007199254740992) (Finite False 1) = Finite False 9007199254740992"
  by code_simp

lemma add_1_2_53:
  "fadd (Finite False 1) (Finite False 9007199254740992) = Finite False 9007199254740992"
  by code_simp

lemma add_2_2_53:
  "fadd (Finite False 2) (Finite False 9007199254740992) = Finite False 9007199254740994"
  by code_simp

lemma interest_3_1:
  "fadd (Finite False 3) (fdiv (fmul (Finite False 3) (Finite False 1)) d100) =
   Finite False (6822953435466301 / 2251799813685248)"
  by code_simp

lemma compound_3_1:
  "fmul (Finite False 3) (fadd (Finite False 1) (fdiv (Finite False 1) d100)) =
   Finite False (3411476717733151 / 1125899906842624)"
  by code_simp

subsection \<open>The methods\<close>

lemmas method_defs =
  setInterestRate_def setAccountHolder_def deposit_def withdraw_def applyInterest_def
  transfer_def isValidAmount_def

lemma exec_interestRate:
  "interestRate (exec c h p) = interestRate (h p) \<or>
   fge (interestRate (exec c h p)) d0 \<and> fle (interestRate (exec c h p)) d50"
  by (cases c) (auto simp: method_defs Let_def)

lemma exec_rate_in_range: "\<forall>p. rate_in_range (h p) \<Longrightarrow> rate_in_range (exec c h p)"
  using exec_interestRate [of c h p] by (auto simp: rate_in_range_def fge_def)

lemma run_rate_in_range: "\<forall>p. rate_in_range (h p) \<Longrightarrow> rate_in_range (run cs h p)"
proof (induction cs arbitrary: h p)
  case Nil
  then show ?case by simp
next
  case (Cons c cs)
  have "\<forall>q. rate_in_range (exec c h q)"
    using Cons.prems by (simp add: exec_rate_in_range)
  then show ?case
    using Cons.IH by simp
qed

lemma exec_accountHolder:
  "accountHolder (exec c h p) = accountHolder (h p) \<or> accountHolder (exec c h p) \<noteq> []"
  by (cases c) (auto simp: method_defs Let_def)

lemma run_accountHolder:
  "\<forall>p. accountHolder (h p) \<noteq> [] \<Longrightarrow> accountHolder (run cs h p) \<noteq> []"
proof (induction cs arbitrary: h p)
  case Nil
  then show ?case by simp
next
  case (Cons c cs)
  have "\<forall>q. accountHolder (exec c h q) \<noteq> []"
  proof
    fix q
    show "accountHolder (exec c h q) \<noteq> []"
      using exec_accountHolder [of c h q] Cons.prems by auto
  qed
  then show ?case
    using Cons.IH by simp
qed

lemma main_store_rates: "rate_in_range (main_store p)"
  by (simp add: main_store_def store_of_def rate_in_range_def BankAccount_ctor_def lit_3_5 lit_1
      d0_def d50_def)

lemma main_store_balance:
  "balance (main_store p) = (if p = 0 then Finite False 5000 else Finite False 10000)"
  by (simp add: main_store_def store_of_def BankAccount_ctor_def lit_5000 lit_10000)

lemma main_store_interestRate:
  "interestRate (main_store p) = (if p = 0 then Finite False (7 / 2) else Finite False 1)"
  by (simp add: main_store_def store_of_def BankAccount_ctor_def lit_3_5 lit_1)

lemma main_store_holders: "accountHolder (main_store p) \<noteq> []"
  by (simp add: main_store_def store_of_def BankAccount_ctor_def)

lemma exec_numbers_ok:
  "\<forall>p. numbers_ok (h p) \<Longrightarrow> rate_is_double c \<Longrightarrow> numbers_ok (exec c h p)"
  by (cases c)
    (auto simp: numbers_ok_def method_defs Let_def is_double_fadd is_double_fsub
      simp del: is_double.simps)

lemma run_numbers_ok:
  "\<forall>p. numbers_ok (h p) \<Longrightarrow> list_all rate_is_double cs \<Longrightarrow> numbers_ok (run cs h p)"
proof (induction cs arbitrary: h p)
  case Nil
  then show ?case by simp
next
  case (Cons c cs)
  have "\<forall>q. numbers_ok (exec c h q)"
    using Cons.prems by (simp add: exec_numbers_ok)
  then show ?case
    using Cons by simp
qed

lemma main_store_numbers_ok: "numbers_ok (main_store p)"
  by (simp add: numbers_ok_def main_store_def store_of_def BankAccount_ctor_def is_double_of_rat
      del: is_double.simps)

lemma fsub_not_negative: "fgt y d0 \<Longrightarrow> \<not> fgt y x \<Longrightarrow> \<not> flt (fsub x y) d0"
proof (cases x; cases y)
  fix s m t n
  assume x: "x = Finite s m" and y: "y = Finite t n" and le: "\<not> fgt y x"
  define v where "v = valof x - valof y"
  have v0: "0 \<le> v"
    using le by (simp add: v_def x y fgt_def)
  have f: "fsub x y = (if v = 0 then Finite (s \<and> \<not> t) 0 else round64 False v)"
    using v0 by (auto simp: fsub_def x y v_def Let_def)
  show "\<not> flt (fsub x y) d0"
    using round64_nonneg [OF v0, of False] by (auto simp: f d0_def)
qed (auto simp: fsub_def fgt_def d0_def)

lemma fadd_not_negative: "\<not> flt x d0 \<Longrightarrow> fgt y d0 \<Longrightarrow> \<not> flt (fadd x y) d0"
proof (cases x; cases y)
  fix s m t n
  assume x: "x = Finite s m" and y: "y = Finite t n" and x0: "\<not> flt x d0" and y0: "fgt y d0"
  define v where "v = valof x + valof y"
  have v0: "0 < v"
    using x0 y0 by (simp add: v_def x y fgt_def d0_def)
  then have f: "fadd x y = round64 False v"
    by (auto simp: x y v_def Let_def)
  show "\<not> flt (fadd x y) d0"
    using round64_nonneg [of v False] v0 by (auto simp: f d0_def)
qed (auto simp: fgt_def d0_def)

lemma lit_2_53_2: "double_of_rat 9007199254740994 = Finite False 9007199254740994"
  by code_simp

lemma sub_add_2_53:
  "fadd (fsub (Finite False 9007199254740994) (Finite False 1)) (Finite False 1) =
   Finite False 9007199254740992"
  by code_simp

lemma scenario_steps:
  "fadd (Finite False 5000) (Finite False 2000) = Finite False 7000"
  "fsub (Finite False 7000) (Finite False 3000) = Finite False 4000"
  "fdiv (fmul (Finite False 4000) (Finite False (7 / 2))) d100 = Finite False 140"
  "fadd (Finite False 4000) (Finite False 140) = Finite False 4140"
  "fsub (Finite False 4140) (Finite False 500) = Finite False 3640"
  "fadd (Finite False 10000) (Finite False 500) = Finite False 10500"
  by code_simp+

section \<open>Construction\<close>

text \<open>
  Claim C5. For every tuple of constructor arguments, a negative initial balance and an
  interest rate outside \<open>[0, 50]\<close> included, construction gives an account (the
  constructor has no check and no failure branch) whose balance is the initial balance
  and whose interest rate is the argument, whatever they are; so are the other three
  members.
\<close>

theorem ctor_no_validation:
  "balance (BankAccount_ctor accNum holder initialBalance atype rate) = initialBalance \<and>
   interestRate (BankAccount_ctor accNum holder initialBalance atype rate) = rate \<and>
   accountNumber (BankAccount_ctor accNum holder initialBalance atype rate) = accNum \<and>
   accountHolder (BankAccount_ctor accNum holder initialBalance atype rate) = holder \<and>
   accountType (BankAccount_ctor accNum holder initialBalance atype rate) = atype"
  by (simp add: BankAccount_ctor_def)

section \<open>\<^verbatim>\<open>setInterestRate\<close>\<close>

text \<open>
  Claim C6. For every account and every rate, \<^verbatim>\<open>setInterestRate(rate)\<close> returns true and
  stores the rate if and only if \<open>0 \<le> rate \<le> 50\<close>, and otherwise changes nothing and
  reports an invalid interest rate. The comparisons are those of binary64, so the rates
  accepted are exactly the finite ones whose value is in \<open>[0, 50]\<close>; a NaN and the
  infinities are refused. At the boundaries, \<^verbatim>\<open>50.0\<close> and \<^verbatim>\<open>0.0\<close> are accepted, and the
  doubles that the literals \<^verbatim>\<open>50.0001\<close> and \<^verbatim>\<open>-0.0001\<close> denote are refused.
\<close>

theorem setInterestRate_range:
  "(returned (fst (setInterestRate rate a)) \<longleftrightarrow> fle d0 rate \<and> fle rate d50) \<and>
   setInterestRate rate a =
     (if fle d0 rate \<and> fle rate d50 then (Success, a\<lparr>interestRate := rate\<rparr>)
      else (InvalidInterestRate, a)) \<and>
   (fle d0 rate \<and> fle rate d50) =
     (case rate of Finite s m \<Rightarrow> 0 \<le> valof rate \<and> valof rate \<le> 50
      | Infinity s \<Rightarrow> False | NaN \<Rightarrow> False) \<and>
   setInterestRate (double_of_rat 50) a = (Success, a\<lparr>interestRate := double_of_rat 50\<rparr>) \<and>
   setInterestRate (double_of_rat 0) a = (Success, a\<lparr>interestRate := double_of_rat 0\<rparr>) \<and>
   setInterestRate (double_of_rat (500001 / 10000)) a = (InvalidInterestRate, a) \<and>
   setInterestRate (fneg (double_of_rat (1 / 10000))) a = (InvalidInterestRate, a)"
  using range_iff [of rate]
  by (simp add: setInterestRate_def returned_def fge_def lit_50 lit_0 lit_50_0001 lit_0_0001
      d0_def d50_def)

section \<open>\<^verbatim>\<open>withdraw\<close>\<close>

text \<open>
  Claim C1 says that \<^verbatim>\<open>withdraw(amount)\<close> succeeds if and only if \<open>amount > 0\<close> and
  \<open>amount \<le> balance\<close>. The code does not test \<open>amount \<le> balance\<close>: it refuses when
  \<open>amount > balance\<close>, and with a NaN balance both comparisons are false. An account
  constructed with a NaN balance (the constructor checks nothing) lets every positive
  amount be withdrawn.
\<close>

theorem withdraw_NaN_counterexample:
  "fst (withdraw (double_of_rat 1) (BankAccount_ctor ''ACC001'' ''John Doe'' NaN ''Savings'' d0)) =
     Success \<and>
   \<not> (fgt (double_of_rat 1) d0 \<and>
      fle (double_of_rat 1) (balance (BankAccount_ctor ''ACC001'' ''John Doe'' NaN ''Savings'' d0)))"
  by (simp add: withdraw_def isValidAmount_def BankAccount_ctor_def lit_1 d0_def fgt_def)

text \<open>
  Claim C1, amended. For every account whose balance is not NaN and every amount,
  \<^verbatim>\<open>withdraw(amount)\<close> returns true if and only if \<open>amount > 0\<close> and \<open>amount \<le> balance\<close>, and
  then the new balance is \<open>balance - amount\<close> as binary64 computes it, the other members
  unchanged. Otherwise the account is unchanged, and the failure reported is the invalid
  amount when \<open>amount > 0\<close> is false (a NaN amount included) and the insufficient funds
  when \<open>amount > balance\<close>. When the balance is finite and the exact difference is a
  binary64 number, the balance decreases by exactly the amount.
\<close>

theorem withdraw_spec:
  assumes "balance a \<noteq> NaN"
  shows "(returned (fst (withdraw amount a)) \<longleftrightarrow> fgt amount d0 \<and> fle amount (balance a)) \<and>
    (fgt amount d0 \<and> fle amount (balance a) \<longrightarrow>
       withdraw amount a = (Success, a\<lparr>balance := fsub (balance a) amount\<rparr>)) \<and>
    (\<not> fgt amount d0 \<longrightarrow> withdraw amount a = (InvalidAmount, a)) \<and>
    (fgt amount d0 \<and> fgt amount (balance a) \<longrightarrow> withdraw amount a = (InsufficientFunds, a)) \<and>
    (fgt amount d0 \<and> fle amount (balance a) \<and> is_finite (balance a) \<and>
     representable (valof (balance a) - valof amount) \<longrightarrow>
       valof (balance (snd (withdraw amount a))) = valof (balance a) - valof amount)"
proof -
  have iff: "fgt amount d0 \<Longrightarrow> (\<not> fgt amount (balance a)) = fle amount (balance a)"
    using assms fgt_not_NaN [of amount d0] by (simp add: not_fgt_iff_fle)
  have exact: "valof (fsub (balance a) amount) = valof (balance a) - valof amount"
    if "fgt amount d0" "fle amount (balance a)" "is_finite (balance a)"
      "representable (valof (balance a) - valof amount)"
    using that by (simp add: fsub_exact fle_finite_left)
  show ?thesis
    using iff exact by (auto simp: withdraw_def isValidAmount_def returned_def)
qed

text \<open>
  Three withdrawals from \<^verbatim>\<open>account1\<close> as \<^verbatim>\<open>main\<close> constructs it, with the balance 5000:
  3000 is withdrawn and leaves exactly 2000, \<open>- 1000\<close> is an invalid amount, and 100000
  is more than the balance.
\<close>

theorem withdraw_spec_witness:
  "balance (main_store 0) \<noteq> NaN \<and>
   fgt (Finite False 3000) d0 \<and> fle (Finite False 3000) (balance (main_store 0)) \<and>
   is_finite (balance (main_store 0)) \<and>
   representable (valof (balance (main_store 0)) - valof (Finite False 3000)) \<and>
   returned (fst (withdraw (Finite False 3000) (main_store 0))) \<and>
   valof (balance (snd (withdraw (Finite False 3000) (main_store 0)))) = 2000 \<and>
   \<not> fgt (Finite True 1000) d0 \<and>
   withdraw (Finite True 1000) (main_store 0) = (InvalidAmount, main_store 0) \<and>
   fgt (Finite False 100000) d0 \<and> fgt (Finite False 100000) (balance (main_store 0)) \<and>
   withdraw (Finite False 100000) (main_store 0) = (InsufficientFunds, main_store 0)"
proof -
  have rep: "representable 2000"
    by code_simp
  have h0: "balance (main_store 0) \<noteq> NaN"
    by (simp add: main_store_balance)
  have h1: "fgt (Finite False 3000) d0" "fle (Finite False 3000) (balance (main_store 0))"
    "is_finite (balance (main_store 0))"
    "representable (valof (balance (main_store 0)) - valof (Finite False 3000))"
    using rep by (simp_all add: main_store_balance fgt_def d0_def)
  have h2: "\<not> fgt (Finite True 1000) d0"
    by (simp add: fgt_def d0_def)
  have h3: "fgt (Finite False 100000) d0" "fgt (Finite False 100000) (balance (main_store 0))"
    by (simp_all add: main_store_balance fgt_def d0_def)
  note w1 = withdraw_spec [of "main_store 0" "Finite False 3000", OF h0]
  note w2 = withdraw_spec [of "main_store 0" "Finite True 1000", OF h0]
  note w3 = withdraw_spec [of "main_store 0" "Finite False 100000", OF h0]
  have c1: "returned (fst (withdraw (Finite False 3000) (main_store 0)))"
    using w1 h1 by blast
  have "valof (balance (snd (withdraw (Finite False 3000) (main_store 0)))) =
      valof (balance (main_store 0)) - valof (Finite False 3000)"
    using w1 h1 by blast
  then have c2: "valof (balance (snd (withdraw (Finite False 3000) (main_store 0)))) = 2000"
    by (simp add: main_store_balance)
  have c3: "withdraw (Finite True 1000) (main_store 0) = (InvalidAmount, main_store 0)"
    using w2 h2 by blast
  have c4: "withdraw (Finite False 100000) (main_store 0) = (InsufficientFunds, main_store 0)"
    using w3 h3 by blast
  show ?thesis
    using h0 h1 h2 h3 c1 c2 c3 c4 by blast
qed

section \<open>\<^verbatim>\<open>transfer\<close>\<close>

text \<open>
  Claim C2 says that a transfer of \<open>0 < amount \<le> balance\<close> takes exactly the amount from
  the source, adds exactly the amount to the destination, and so conserves the sum of the
  two balances. Both assignments round. With 2 in the source and \<open>2 ^ 53\<close> in the
  destination, a transfer of 1 succeeds and leaves 1 in the source, and the destination
  still holds \<open>2 ^ 53\<close> (\<open>2 ^ 53 + 1\<close> is not a binary64 number and is rounded to the even
  neighbour): the sum of the balances is not what it was, whether the sum is taken in
  binary64 or exactly.
\<close>

theorem transfer_not_conserved_counterexample:
  "fgt (double_of_rat 1) d0 \<and>
   fle (double_of_rat 1)
     (balance (store_of (BankAccount_ctor3 ''ACC001'' ''John Doe'' (double_of_rat 2))
        (BankAccount_ctor3 ''ACC002'' ''Jane Smith'' (double_of_rat 9007199254740992)) 0)) \<and>
   fst (transfer 0 1 (double_of_rat 1)
     (store_of (BankAccount_ctor3 ''ACC001'' ''John Doe'' (double_of_rat 2))
        (BankAccount_ctor3 ''ACC002'' ''Jane Smith'' (double_of_rat 9007199254740992)))) = Success \<and>
   balance (snd (transfer 0 1 (double_of_rat 1)
     (store_of (BankAccount_ctor3 ''ACC001'' ''John Doe'' (double_of_rat 2))
        (BankAccount_ctor3 ''ACC002'' ''Jane Smith'' (double_of_rat 9007199254740992)))) 0) =
     double_of_rat 1 \<and>
   balance (snd (transfer 0 1 (double_of_rat 1)
     (store_of (BankAccount_ctor3 ''ACC001'' ''John Doe'' (double_of_rat 2))
        (BankAccount_ctor3 ''ACC002'' ''Jane Smith'' (double_of_rat 9007199254740992)))) 1) =
     double_of_rat 9007199254740992 \<and>
   fadd (double_of_rat 1) (double_of_rat 9007199254740992) \<noteq>
     fadd (double_of_rat 2) (double_of_rat 9007199254740992) \<and>
   valof (double_of_rat 1) + valof (double_of_rat 9007199254740992) \<noteq>
     valof (double_of_rat 2) + valof (double_of_rat 9007199254740992)"
  by (simp add: transfer_def isValidAmount_def Let_def store_of_def BankAccount_ctor3_def
      BankAccount_ctor4_def BankAccount_ctor_def lit_1 lit_2 lit_2_53 fgt_def d0_def
      sub_2_1 add_2_53_1 add_1_2_53 add_2_2_53 del: fadd.simps)

text \<open>
  Claim C2, amended. For every two distinct accounts and every amount with \<open>amount > 0\<close>
  and \<open>amount \<le> balance\<close> of the source, \<^verbatim>\<open>transfer\<close> returns true, the new balance of the
  source is \<open>balance - amount\<close> and the new balance of the destination is
  \<open>balance + amount\<close>, each as binary64 computes it. When the two balances are finite and
  neither result is rounded (the exact difference and the exact sum are binary64
  numbers), the source decreases by exactly the amount, the destination increases by
  exactly the amount, and the sum of the two balances is conserved.
\<close>

theorem transfer_spec:
  assumes "this \<noteq> toAccount" and "fgt amount d0" and "fle amount (balance (h this))"
  shows "fst (transfer this toAccount amount h) = Success \<and>
    balance (snd (transfer this toAccount amount h) this) = fsub (balance (h this)) amount \<and>
    balance (snd (transfer this toAccount amount h) toAccount) =
      fadd (balance (h toAccount)) amount \<and>
    (is_finite (balance (h this)) \<and> is_finite (balance (h toAccount)) \<and>
     representable (valof (balance (h this)) - valof amount) \<and>
     representable (valof (balance (h toAccount)) + valof amount) \<longrightarrow>
       valof (balance (snd (transfer this toAccount amount h) this)) =
         valof (balance (h this)) - valof amount \<and>
       valof (balance (snd (transfer this toAccount amount h) toAccount)) =
         valof (balance (h toAccount)) + valof amount \<and>
       valof (balance (snd (transfer this toAccount amount h) this)) +
       valof (balance (snd (transfer this toAccount amount h) toAccount)) =
         valof (balance (h this)) + valof (balance (h toAccount)))"
proof -
  have ok: "transfer this toAccount amount h =
      (Success, h(this := (h this)\<lparr>balance := fsub (balance (h this)) amount\<rparr>,
                  toAccount := (h toAccount)\<lparr>balance := fadd (balance (h toAccount)) amount\<rparr>))"
    using assms by (simp add: transfer_def isValidAmount_def Let_def fle_imp_not_fgt)
  have fin: "is_finite amount" if "is_finite (balance (h this))"
    using that assms by (simp add: fle_finite_left)
  show ?thesis
    using assms(1) fin by (simp add: ok fsub_exact fadd_exact)
qed

text \<open>
  The hypotheses of the amended claim hold in the demonstration: \<^verbatim>\<open>account1\<close> and
  \<^verbatim>\<open>account2\<close> are distinct, and 500 is positive and at most the 5000 of \<^verbatim>\<open>account1\<close>;
  neither result is rounded and the sum stays 15000.
\<close>

theorem transfer_spec_witness:
  "(0::addr) \<noteq> 1 \<and> fgt (Finite False 500) d0 \<and>
   fle (Finite False 500) (balance (main_store 0)) \<and>
   is_finite (balance (main_store 0)) \<and> is_finite (balance (main_store 1)) \<and>
   representable (valof (balance (main_store 0)) - valof (Finite False 500)) \<and>
   representable (valof (balance (main_store 1)) + valof (Finite False 500)) \<and>
   fst (transfer 0 1 (Finite False 500) main_store) = Success \<and>
   valof (balance (snd (transfer 0 1 (Finite False 500) main_store) 0)) = 4500 \<and>
   valof (balance (snd (transfer 0 1 (Finite False 500) main_store) 1)) = 10500 \<and>
   valof (balance (snd (transfer 0 1 (Finite False 500) main_store) 0)) +
   valof (balance (snd (transfer 0 1 (Finite False 500) main_store) 1)) = 15000"
proof -
  let ?h = "snd (transfer 0 1 (Finite False 500) main_store)"
  have rep: "representable 4500" "representable 10500"
    by code_simp+
  have h1: "(0::addr) \<noteq> 1"
    by simp
  have h2: "fgt (Finite False 500) d0"
    by (simp add: fgt_def d0_def)
  have h3: "fle (Finite False 500) (balance (main_store 0))"
    by (simp add: main_store_balance)
  have h4: "is_finite (balance (main_store 0))" "is_finite (balance (main_store 1))"
    by (simp_all add: main_store_balance)
  have h5: "representable (valof (balance (main_store 0)) - valof (Finite False 500))"
    "representable (valof (balance (main_store 1)) + valof (Finite False 500))"
    using rep by (simp_all add: main_store_balance)
  note t = transfer_spec [of 0 1 "Finite False 500" main_store, OF h1 h2 h3]
  have c1: "fst (transfer 0 1 (Finite False 500) main_store) = Success"
    using t by blast
  have "valof (balance (?h 0)) = valof (balance (main_store 0)) - valof (Finite False 500)"
    using t h4 h5 by blast
  then have c2: "valof (balance (?h 0)) = 4500"
    by (simp add: main_store_balance)
  have "valof (balance (?h 1)) = valof (balance (main_store 1)) + valof (Finite False 500)"
    using t h4 h5 by blast
  then have c3: "valof (balance (?h 1)) = 10500"
    by (simp add: main_store_balance)
  have c4: "valof (balance (?h 0)) + valof (balance (?h 1)) = 15000"
    by (simp only: c2 c3)
  show ?thesis
    using h1 h2 h3 h4 h5 c1 c2 c3 c4 by blast
qed

section \<open>Failed validation\<close>

text \<open>
  Claim C3. Whenever the validation of a mutating method fails, the method returns false
  and leaves the account as it was, and \<^verbatim>\<open>transfer\<close> leaves the whole store, so both
  accounts, as it was:
  \<^item> \<^verbatim>\<open>deposit\<close>, \<^verbatim>\<open>withdraw\<close> and \<^verbatim>\<open>transfer\<close> with an amount for which \<open>amount > 0\<close> is false;
  \<^item> \<^verbatim>\<open>withdraw\<close> and \<^verbatim>\<open>transfer\<close> with a positive amount above the balance;
  \<^item> \<^verbatim>\<open>setInterestRate\<close> with a rate outside \<open>[0, 50]\<close>;
  \<^item> \<^verbatim>\<open>setAccountHolder\<close> with the empty name.
  Conversely every call that returns false has changed nothing. In particular
  \<^verbatim>\<open>deposit(-1)\<close> fails on every account and leaves it unchanged.
\<close>

theorem validation_failure_no_change:
  "(\<not> fgt amount d0 \<longrightarrow> deposit amount a = (InvalidAmount, a)) \<and>
   (\<not> fgt amount d0 \<longrightarrow> withdraw amount a = (InvalidAmount, a)) \<and>
   (fgt amount' d0 \<and> fgt amount' (balance a) \<longrightarrow> withdraw amount' a = (InsufficientFunds, a)) \<and>
   (\<not> fgt amount d0 \<longrightarrow> transfer this toAccount amount h = (InvalidAmount, h)) \<and>
   (fgt amount' d0 \<and> fgt amount' (balance (h this)) \<longrightarrow>
      transfer this toAccount amount' h = (InsufficientFunds, h)) \<and>
   (\<not> (fle d0 rate \<and> fle rate d50) \<longrightarrow> setInterestRate rate a = (InvalidInterestRate, a)) \<and>
   setAccountHolder [] a = (InvalidHolderName, a) \<and>
   (\<not> returned (fst (deposit x a)) \<longrightarrow> snd (deposit x a) = a) \<and>
   (\<not> returned (fst (withdraw x a)) \<longrightarrow> snd (withdraw x a) = a) \<and>
   (\<not> returned (fst (transfer this toAccount x h)) \<longrightarrow> snd (transfer this toAccount x h) = h) \<and>
   (\<not> returned (fst (setInterestRate x a)) \<longrightarrow> snd (setInterestRate x a) = a) \<and>
   (\<not> returned (fst (setAccountHolder n a)) \<longrightarrow> snd (setAccountHolder n a) = a) \<and>
   \<not> returned InvalidAmount \<and> \<not> returned InsufficientFunds \<and>
   \<not> returned InvalidInterestRate \<and> \<not> returned InvalidHolderName \<and>
   deposit (fneg (double_of_rat 1)) a = (InvalidAmount, a)"
  by (simp add: method_defs returned_def fge_def Let_def lit_1 fgt_def [of "Finite True 1"] d0_def)

text \<open>
  Failing calls on \<^verbatim>\<open>account1\<close> as \<^verbatim>\<open>main\<close> constructs it: the amount \<open>- 1000\<close> is invalid
  for \<^verbatim>\<open>deposit\<close>, \<^verbatim>\<open>withdraw\<close> and \<^verbatim>\<open>transfer\<close>, the amount 100000 is more than
  the balance 5000, the rates 75 and \<open>- 1000\<close> are outside \<open>[0, 50]\<close>, and the
  empty name is invalid.
\<close>

theorem validation_failure_no_change_witness:
  "\<not> fgt (Finite True 1000) d0 \<and>
   deposit (Finite True 1000) (main_store 0) = (InvalidAmount, main_store 0) \<and>
   withdraw (Finite True 1000) (main_store 0) = (InvalidAmount, main_store 0) \<and>
   transfer 0 1 (Finite True 1000) main_store = (InvalidAmount, main_store) \<and>
   fgt (Finite False 100000) d0 \<and> fgt (Finite False 100000) (balance (main_store 0)) \<and>
   withdraw (Finite False 100000) (main_store 0) = (InsufficientFunds, main_store 0) \<and>
   transfer 0 1 (Finite False 100000) main_store = (InsufficientFunds, main_store) \<and>
   \<not> (fle d0 (Finite False 75) \<and> fle (Finite False 75) d50) \<and>
   setInterestRate (Finite False 75) (main_store 0) = (InvalidInterestRate, main_store 0) \<and>
   \<not> returned (fst (deposit (Finite True 1000) (main_store 0))) \<and>
   snd (deposit (Finite True 1000) (main_store 0)) = main_store 0 \<and>
   \<not> returned (fst (withdraw (Finite True 1000) (main_store 0))) \<and>
   snd (withdraw (Finite True 1000) (main_store 0)) = main_store 0 \<and>
   \<not> returned (fst (transfer 0 1 (Finite True 1000) main_store)) \<and>
   snd (transfer 0 1 (Finite True 1000) main_store) = main_store \<and>
   \<not> returned (fst (setInterestRate (Finite True 1000) (main_store 0))) \<and>
   snd (setInterestRate (Finite True 1000) (main_store 0)) = main_store 0 \<and>
   \<not> returned (fst (setAccountHolder [] (main_store 0))) \<and>
   snd (setAccountHolder [] (main_store 0)) = main_store 0"
proof -
  have h1: "\<not> fgt (Finite True 1000) d0"
    by (simp add: fgt_def d0_def)
  have h2: "fgt (Finite False 100000) d0" "fgt (Finite False 100000) (balance (main_store 0))"
    by (simp_all add: main_store_balance fgt_def d0_def)
  have h3: "\<not> (fle d0 (Finite False 75) \<and> fle (Finite False 75) d50)"
    by (simp add: d50_def)
  have r: "\<not> returned (fst (deposit (Finite True 1000) (main_store 0)))"
    "\<not> returned (fst (withdraw (Finite True 1000) (main_store 0)))"
    "\<not> returned (fst (transfer 0 1 (Finite True 1000) main_store))"
    "\<not> returned (fst (setInterestRate (Finite True 1000) (main_store 0)))"
    "\<not> returned (fst (setAccountHolder [] (main_store 0)))"
    by (simp_all add: method_defs returned_def fgt_def fge_def d0_def)
  note v = validation_failure_no_change [where amount = "Finite True 1000"
      and a = "main_store 0" and amount' = "Finite False 100000" and this = 0
      and toAccount = 1 and h = main_store and rate = "Finite False 75"
      and x = "Finite True 1000" and n = "[]"]
  show ?thesis
    using v h1 h2 h3 r by blast
qed

section \<open>The interest rate as an invariant\<close>

text \<open>
  Claim C4 says that the interest rate of every account, as constructed or after any
  sequence of calls, is within \<open>[0, 50]\<close>. The constructor stores the rate it is given
  without a check: an account constructed with 75 has the interest rate 75.
\<close>

theorem ctor_rate_counterexample:
  "interestRate
     (BankAccount_ctor ''ACC001'' ''John Doe'' (double_of_rat 5000) ''Savings'' (double_of_rat 75)) =
     double_of_rat 75 \<and>
   \<not> fle (double_of_rat 75) d50"
  by (simp add: BankAccount_ctor_def lit_75 d50_def)

text \<open>
  Claim C4, amended. An account constructed with a rate within \<open>[0, 50]\<close> has its interest
  rate within \<open>[0, 50]\<close>; so has an account after a call of \<^verbatim>\<open>setInterestRate\<close> that
  returned true; and when the interest rate of every account of the store is within
  \<open>[0, 50]\<close>, it still is after any sequence of calls of \<^verbatim>\<open>deposit\<close>, \<^verbatim>\<open>withdraw\<close>,
  \<^verbatim>\<open>transfer\<close>, \<^verbatim>\<open>setInterestRate\<close>, \<^verbatim>\<open>setAccountHolder\<close> and \<^verbatim>\<open>applyInterest\<close>.
\<close>

theorem rate_invariant:
  "(fle d0 rate \<and> fle rate d50 \<longrightarrow>
      rate_in_range (BankAccount_ctor accNum holder initialBalance atype rate)) \<and>
   (returned (fst (setInterestRate rate' a)) \<longrightarrow> rate_in_range (snd (setInterestRate rate' a))) \<and>
   ((\<forall>p. rate_in_range (h p)) \<longrightarrow> (\<forall>p. rate_in_range (run cs h p)))"
  using run_rate_in_range [of h cs]
  by (auto simp: rate_in_range_def BankAccount_ctor_def setInterestRate_def returned_def fge_def)

text \<open>
  The demonstration: \<^verbatim>\<open>account1\<close> is constructed with 3.5 and \<^verbatim>\<open>account2\<close> with 1.0, the
  call \<^verbatim>\<open>setInterestRate(4.5)\<close> returns true, and the ten calls of \<^verbatim>\<open>main\<close> keep both rates
  within \<open>[0, 50]\<close>.
\<close>

theorem rate_invariant_witness:
  "fle d0 (double_of_rat (7 / 2)) \<and> fle (double_of_rat (7 / 2)) d50 \<and>
   rate_in_range
     (BankAccount_ctor ''ACC001'' ''John Doe'' (double_of_rat 5000) ''Savings'' (double_of_rat (7 / 2))) \<and>
   returned (fst (setInterestRate (Finite False (9 / 2)) (main_store 0))) \<and>
   rate_in_range (snd (setInterestRate (Finite False (9 / 2)) (main_store 0))) \<and>
   (\<forall>p. rate_in_range (main_store p)) \<and>
   (\<forall>p. rate_in_range (run main_calls main_store p))"
  using rate_invariant [of "double_of_rat (7 / 2)" "''ACC001''" "''John Doe''" "double_of_rat 5000"
      "''Savings''" "Finite False (9 / 2)" "main_store 0" main_store main_calls] main_store_rates
  by (simp add: lit_3_5 d0_def d50_def setInterestRate_def returned_def fge_def)

section \<open>The name of the holder\<close>

text \<open>
  Claim C8 says that the name of the holder is never empty after a successful mutation.
  The constructor accepts the empty name, and the mutations other than
  \<^verbatim>\<open>setAccountHolder\<close> do not look at the name: on an account constructed with the empty
  name, \<^verbatim>\<open>deposit(1)\<close> returns true and the name is still empty.
\<close>

theorem empty_holder_counterexample:
  "accountHolder (BankAccount_ctor ''ACC001'' [] (double_of_rat 5000) ''Savings'' d0) = [] \<and>
   fst (deposit (double_of_rat 1)
     (BankAccount_ctor ''ACC001'' [] (double_of_rat 5000) ''Savings'' d0)) = Success \<and>
   accountHolder (snd (deposit (double_of_rat 1)
     (BankAccount_ctor ''ACC001'' [] (double_of_rat 5000) ''Savings'' d0))) = []"
  by (simp add: deposit_def isValidAmount_def BankAccount_ctor_def lit_1 fgt_def d0_def)

text \<open>
  Claim C8, amended. \<^verbatim>\<open>setAccountHolder(name)\<close> returns true and stores the name if and
  only if the name is not empty, and otherwise reports an invalid name and changes
  nothing; after a call of it that returned true the name of the holder is not empty;
  and when the name of every account of the store is not empty, it still is after any
  sequence of calls.
\<close>

theorem holder_invariant:
  "setAccountHolder newHolder a =
     (if newHolder \<noteq> [] then (Success, a\<lparr>accountHolder := newHolder\<rparr>)
      else (InvalidHolderName, a)) \<and>
   (returned (fst (setAccountHolder newHolder a)) \<longrightarrow>
      accountHolder (snd (setAccountHolder newHolder a)) \<noteq> []) \<and>
   ((\<forall>p. accountHolder (h p) \<noteq> []) \<longrightarrow> (\<forall>p. accountHolder (run cs h p) \<noteq> []))"
  using run_accountHolder [of h cs]
  by (auto simp: setAccountHolder_def returned_def)

text \<open>
  The demonstration: \<^verbatim>\<open>setAccountHolder("John Smith")\<close> returns true, both accounts are
  constructed with a name, and both have one after the ten calls of \<^verbatim>\<open>main\<close>.
\<close>

theorem holder_invariant_witness:
  "returned (fst (setAccountHolder ''John Smith'' (main_store 0))) \<and>
   accountHolder (snd (setAccountHolder ''John Smith'' (main_store 0))) = ''John Smith'' \<and>
   (\<forall>p. accountHolder (main_store p) \<noteq> []) \<and>
   (\<forall>p. accountHolder (run main_calls main_store p) \<noteq> [])"
  using holder_invariant [of "''John Smith''" "main_store 0" main_store main_calls]
    main_store_holders
  by (simp add: setAccountHolder_def returned_def)

section \<open>\<^verbatim>\<open>applyInterest\<close>\<close>

text \<open>
  Claim C7. For every account, \<^verbatim>\<open>applyInterest()\<close> computes the interest
  \<open>balance * interestRate / 100\<close>, adds it to the balance and returns it, in binary64; it
  has no check and no failure branch, so it returns an amount on every account. On an
  account with the balance 5000 and the rate 3.5 it returns 175 and the new balance is
  5175: none of the three operations rounds there.
\<close>

theorem applyInterest_spec:
  "applyInterest a =
     (fdiv (fmul (balance a) (interestRate a)) d100,
      a\<lparr>balance := fadd (balance a) (fdiv (fmul (balance a) (interestRate a)) d100)\<rparr>) \<and>
   applyInterest (BankAccount_ctor accNum holder (double_of_rat 5000) atype (double_of_rat (7 / 2))) =
     (double_of_rat 175,
      BankAccount_ctor accNum holder (double_of_rat 5175) atype (double_of_rat (7 / 2)))"
  by (simp add: applyInterest_def Let_def BankAccount_ctor_def lit_5000 lit_3_5 lit_175 lit_5175
      interest_5000 add_5000_175 del: fmul.simps fdiv.simps fadd.simps)

text \<open>
  Claim C10 says that with \<open>balance \<ge> 0\<close> and \<open>interestRate \<ge> 0\<close> the new balance equals
  \<open>balance * (1 + interestRate / 100)\<close> and is at least the old one, so that it stays
  non-negative. An infinite balance is \<open>\<ge> 0\<close>, and so is the rate 0, which
  \<^verbatim>\<open>setInterestRate\<close> accepts: the interest is then \<open>\<infinity> * 0\<close>, a NaN, the new balance is
  NaN, and a NaN is neither at least the old balance nor at least 0. With finite numbers
  the equation fails by rounding: from the balance 3 at the rate 1 the new balance is
  the double nearest to 3.03, which is neither the binary64 product
  \<open>3 * (1 + 1 / 100)\<close> nor the rational \<open>303 / 100\<close>.
\<close>

theorem applyInterest_NaN_counterexample:
  "fge (balance (BankAccount_ctor ''ACC001'' ''John Doe'' (Infinity False) ''Savings'' d0)) d0 \<and>
   fge (interestRate (BankAccount_ctor ''ACC001'' ''John Doe'' (Infinity False) ''Savings'' d0)) d0 \<and>
   balance (snd (applyInterest
     (BankAccount_ctor ''ACC001'' ''John Doe'' (Infinity False) ''Savings'' d0))) = NaN \<and>
   \<not> fge (balance (snd (applyInterest
         (BankAccount_ctor ''ACC001'' ''John Doe'' (Infinity False) ''Savings'' d0))))
       (balance (BankAccount_ctor ''ACC001'' ''John Doe'' (Infinity False) ''Savings'' d0)) \<and>
   \<not> fge (balance (snd (applyInterest
         (BankAccount_ctor ''ACC001'' ''John Doe'' (Infinity False) ''Savings'' d0)))) d0 \<and>
   balance (snd (applyInterest
     (BankAccount_ctor ''ACC001'' ''John Doe'' (double_of_rat 3) ''Savings'' (double_of_rat 1)))) \<noteq>
     fmul (double_of_rat 3) (fadd (double_of_rat 1) (fdiv (double_of_rat 1) d100)) \<and>
   valof (balance (snd (applyInterest
     (BankAccount_ctor ''ACC001'' ''John Doe'' (double_of_rat 3) ''Savings'' (double_of_rat 1))))) \<noteq>
     3 * (1 + 1 / 100)"
proof -
  have inf: "fadd (Infinity False) (fdiv (fmul (Infinity False) (Finite False 0)) d100) = NaN"
    by simp
  show ?thesis
    by (simp add: applyInterest_def Let_def BankAccount_ctor_def fge_def d0_def lit_1 lit_3
        interest_3_1 compound_3_1 inf del: fmul.simps fdiv.simps fadd.simps)
qed

text \<open>
  Claim C10, amended. For every account whose balance and interest rate are binary64
  numbers \<open>\<ge> 0\<close> with a product that is not NaN (it is NaN only when one of them is zero
  and the other infinite), \<^verbatim>\<open>applyInterest()\<close> does not decrease the balance: the new
  balance is \<open>balance + balance * interestRate / 100\<close> as binary64 computes it, the interest
  added is the amount returned, and the new balance is at least the old balance and at
  least 0. When the balance and the rate are finite and none of the three operations
  rounds (the exact product, the exact quotient and the exact sum are binary64 numbers),
  the new balance equals \<open>balance * (1 + interestRate / 100)\<close> exactly.
\<close>

theorem applyInterest_monotone:
  assumes "is_double (balance a)" and "is_double (interestRate a)"
    and "fge (balance a) d0" and "fge (interestRate a) d0"
    and "fmul (balance a) (interestRate a) \<noteq> NaN"
  shows "fst (applyInterest a) = fdiv (fmul (balance a) (interestRate a)) d100 \<and>
    balance (snd (applyInterest a)) = fadd (balance a) (fst (applyInterest a)) \<and>
    fge (balance (snd (applyInterest a))) (balance a) \<and>
    fge (balance (snd (applyInterest a))) d0 \<and>
    (is_finite (balance a) \<and> is_finite (interestRate a) \<and>
     representable (valof (balance a) * valof (interestRate a)) \<and>
     representable (valof (balance a) * valof (interestRate a) / 100) \<and>
     representable (valof (balance a) + valof (balance a) * valof (interestRate a) / 100) \<longrightarrow>
       valof (balance (snd (applyInterest a))) =
         valof (balance a) * (1 + valof (interestRate a) / 100))"
proof -
  let ?i = "fdiv (fmul (balance a) (interestRate a)) d100"
  have "nonneg (balance a)" and "nonneg (interestRate a)"
    using assms(1-4) by (simp_all add: fge_def nonneg_if_ge_zero)
  then have "nonneg ?i"
    using assms(5) by (simp add: nonneg_fmul nonneg_fdiv_100)
  then have ge: "fle (balance a) (fadd (balance a) ?i)"
    using assms(1,3) by (simp add: fge_def fle_fadd_nonneg)
  then have ge0: "fle d0 (fadd (balance a) ?i)"
    using assms(3) fle_trans [of d0 "balance a"] by (simp add: fge_def)
  have new: "fst (applyInterest a) = ?i" "balance (snd (applyInterest a)) = fadd (balance a) ?i"
    by (simp_all add: applyInterest_def Let_def)
  have exact: "valof (fadd (balance a) ?i) = valof (balance a) * (1 + valof (interestRate a) / 100)"
    if "is_finite (balance a)" "is_finite (interestRate a)"
      "representable (valof (balance a) * valof (interestRate a))"
      "representable (valof (balance a) * valof (interestRate a) / 100)"
      "representable (valof (balance a) + valof (balance a) * valof (interestRate a) / 100)"
    using applyInterest_exact [OF assms(1,2) that] .
  show ?thesis
    using ge ge0 exact by (simp only: new fge_def) blast
qed

text \<open>
  The account of the demonstration, with the balance 5000 and the rate 3.5: the product
  17500, the interest 175 and the sum 5175 are binary64 numbers, and
  \<open>5175 = 5000 * (1 + 3.5 / 100)\<close>.
\<close>

theorem applyInterest_monotone_witness:
  "is_double (balance (main_store 0)) \<and> is_double (interestRate (main_store 0)) \<and>
   fge (balance (main_store 0)) d0 \<and> fge (interestRate (main_store 0)) d0 \<and>
   fmul (balance (main_store 0)) (interestRate (main_store 0)) \<noteq> NaN \<and>
   is_finite (balance (main_store 0)) \<and> is_finite (interestRate (main_store 0)) \<and>
   representable (valof (balance (main_store 0)) * valof (interestRate (main_store 0))) \<and>
   representable (valof (balance (main_store 0)) * valof (interestRate (main_store 0)) / 100) \<and>
   representable (valof (balance (main_store 0)) +
     valof (balance (main_store 0)) * valof (interestRate (main_store 0)) / 100) \<and>
   fge (balance (snd (applyInterest (main_store 0)))) (balance (main_store 0)) \<and>
   fge (balance (snd (applyInterest (main_store 0)))) d0 \<and>
   valof (balance (snd (applyInterest (main_store 0)))) = 5000 * (1 + (7 / 2) / 100) \<and>
   valof (balance (snd (applyInterest (main_store 0)))) = 5175 \<and>
   valof (fst (applyInterest (main_store 0))) = 175"
proof -
  have m: "balance (main_store 0) = Finite False 5000"
    "interestRate (main_store 0) = Finite False (7 / 2)"
    by (simp_all add: main_store_balance main_store_interestRate)
  have rep: "representable 17500" "representable 175" "representable 5175"
    by code_simp+
  have h: "is_double (balance (main_store 0))" "is_double (interestRate (main_store 0))"
    "fge (balance (main_store 0)) d0" "fge (interestRate (main_store 0)) d0"
    "fmul (balance (main_store 0)) (interestRate (main_store 0)) \<noteq> NaN"
    by (simp_all add: m is_double_5000 is_double_3_5 fge_def d0_def round64_not_NaN
        del: is_double.simps)
  have e: "is_finite (balance (main_store 0))" "is_finite (interestRate (main_store 0))"
    "representable (valof (balance (main_store 0)) * valof (interestRate (main_store 0)))"
    "representable (valof (balance (main_store 0)) * valof (interestRate (main_store 0)) / 100)"
    "representable (valof (balance (main_store 0)) +
       valof (balance (main_store 0)) * valof (interestRate (main_store 0)) / 100)"
    using rep by (simp_all add: m)
  note t = applyInterest_monotone [OF h]
  have c1: "fge (balance (snd (applyInterest (main_store 0)))) (balance (main_store 0))"
    "fge (balance (snd (applyInterest (main_store 0)))) d0"
    using t by blast+
  have "valof (balance (snd (applyInterest (main_store 0)))) =
      valof (balance (main_store 0)) * (1 + valof (interestRate (main_store 0)) / 100)"
    using t e by blast
  then have c2: "valof (balance (snd (applyInterest (main_store 0)))) = 5000 * (1 + (7 / 2) / 100)"
    by (simp only: m valof.simps if_False)
  then have c3: "valof (balance (snd (applyInterest (main_store 0)))) = 5175"
    by simp
  have "fst (applyInterest (main_store 0)) =
      fdiv (fmul (balance (main_store 0)) (interestRate (main_store 0))) d100"
    using t by blast
  then have c4: "valof (fst (applyInterest (main_store 0))) = 175"
    by (simp add: m interest_5000 del: fmul.simps fdiv.simps)
  show ?thesis
    using h e c1 c2 c3 c4 by blast
qed

section \<open>What each method leaves unchanged\<close>

text \<open>
  Claim C9. No method changes the account number or the account type. \<^verbatim>\<open>deposit\<close>,
  \<^verbatim>\<open>withdraw\<close> and \<^verbatim>\<open>applyInterest\<close> change at most the balance of their account,
  \<^verbatim>\<open>setInterestRate\<close> at most its interest rate and \<^verbatim>\<open>setAccountHolder\<close> at most the name of
  its holder: the account after the call is the account before with that one member
  replaced. \<^verbatim>\<open>transfer\<close> changes at most the balances of the two accounts it is called
  with: every account of the store is as before but for its balance, and the store is as
  before but at the two addresses.
\<close>

theorem frame:
  "snd (deposit amount a) = a\<lparr>balance := balance (snd (deposit amount a))\<rparr> \<and>
   snd (withdraw amount a) = a\<lparr>balance := balance (snd (withdraw amount a))\<rparr> \<and>
   snd (applyInterest a) = a\<lparr>balance := balance (snd (applyInterest a))\<rparr> \<and>
   snd (setInterestRate rate a) =
     a\<lparr>interestRate := interestRate (snd (setInterestRate rate a))\<rparr> \<and>
   snd (setAccountHolder newHolder a) =
     a\<lparr>accountHolder := accountHolder (snd (setAccountHolder newHolder a))\<rparr> \<and>
   (\<forall>p. snd (transfer this toAccount amount h) p =
     (h p)\<lparr>balance := balance (snd (transfer this toAccount amount h) p)\<rparr>) \<and>
   snd (transfer this toAccount amount h) =
     h(this := snd (transfer this toAccount amount h) this,
       toAccount := snd (transfer this toAccount amount h) toAccount) \<and>
   accountNumber (snd (deposit amount a)) = accountNumber a \<and>
   accountType (snd (deposit amount a)) = accountType a \<and>
   accountNumber (snd (withdraw amount a)) = accountNumber a \<and>
   accountType (snd (withdraw amount a)) = accountType a \<and>
   accountNumber (snd (applyInterest a)) = accountNumber a \<and>
   accountType (snd (applyInterest a)) = accountType a \<and>
   accountNumber (snd (setInterestRate rate a)) = accountNumber a \<and>
   accountType (snd (setInterestRate rate a)) = accountType a \<and>
   accountNumber (snd (setAccountHolder newHolder a)) = accountNumber a \<and>
   accountType (snd (setAccountHolder newHolder a)) = accountType a \<and>
   (\<forall>p. accountNumber (snd (transfer this toAccount amount h) p) = accountNumber (h p)) \<and>
   (\<forall>p. accountType (snd (transfer this toAccount amount h) p) = accountType (h p))"
  by (auto simp: method_defs Let_def)

section \<open>Further properties\<close>

text \<open>
  No overdraft. After a \<^verbatim>\<open>withdraw\<close> or a \<^verbatim>\<open>transfer\<close> that returned true, the balance of
  the account the money was taken from does not compare below 0, whatever the balance
  and the amount were, and also when \<^verbatim>\<open>transfer\<close> is called with the same account twice.
\<close>

theorem no_overdraft:
  "(returned (fst (withdraw amount a)) \<longrightarrow> \<not> flt (balance (snd (withdraw amount a))) d0) \<and>
   (returned (fst (transfer this toAccount amount h)) \<longrightarrow>
      \<not> flt (balance (snd (transfer this toAccount amount h) this)) d0)"
  by (auto simp: withdraw_def transfer_def isValidAmount_def returned_def Let_def
      fsub_not_negative fadd_not_negative)

text \<open>The successful withdrawal and the successful transfer of the demonstration.\<close>

theorem no_overdraft_witness:
  "returned (fst (withdraw (Finite False 3000) (main_store 0))) \<and>
   \<not> flt (balance (snd (withdraw (Finite False 3000) (main_store 0)))) d0 \<and>
   returned (fst (transfer 0 1 (Finite False 500) main_store)) \<and>
   \<not> flt (balance (snd (transfer 0 1 (Finite False 500) main_store) 0)) d0"
proof -
  have w: "returned (fst (withdraw (Finite False 3000) (main_store 0)))"
    by (simp add: withdraw_def isValidAmount_def returned_def fgt_def d0_def main_store_balance)
  have t: "returned (fst (transfer 0 1 (Finite False 500) main_store))"
    by (simp add: transfer_def isValidAmount_def returned_def fgt_def d0_def main_store_balance
        Let_def)
  show ?thesis
    using no_overdraft [of "Finite False 3000" "main_store 0" 0 1 main_store] w
      no_overdraft [of "Finite False 500" "main_store 0" 0 1 main_store] t
    by blast
qed

text \<open>
  A transfer from an account to itself passes the same two checks, then subtracts the
  amount from the balance and adds it to the result; no other account changes. The
  balance is the old one unless an operation rounds: a transfer of 1 from the balance
  \<open>2 ^ 53 + 2\<close> to itself leaves \<open>2 ^ 53\<close>.
\<close>

theorem self_transfer:
  "transfer p p amount h =
     (if \<not> fgt amount d0 then (InvalidAmount, h)
      else if fgt amount (balance (h p)) then (InsufficientFunds, h)
      else (Success, h(p := (h p)\<lparr>balance := fadd (fsub (balance (h p)) amount) amount\<rparr>))) \<and>
   fst (transfer 0 0 (double_of_rat 1)
     (store_of (BankAccount_ctor3 ''ACC001'' ''John Doe'' (double_of_rat 9007199254740994))
        (BankAccount_ctor3 ''ACC002'' ''Jane Smith'' (double_of_rat 0)))) = Success \<and>
   balance (snd (transfer 0 0 (double_of_rat 1)
     (store_of (BankAccount_ctor3 ''ACC001'' ''John Doe'' (double_of_rat 9007199254740994))
        (BankAccount_ctor3 ''ACC002'' ''Jane Smith'' (double_of_rat 0)))) 0) =
     double_of_rat 9007199254740992"
  by (simp add: transfer_def isValidAmount_def Let_def store_of_def BankAccount_ctor3_def
      BankAccount_ctor4_def BankAccount_ctor_def lit_1 lit_0 lit_2_53 lit_2_53_2 sub_add_2_53
      fgt_def [of "Finite False 1"] d0_def del: fadd.simps)

text \<open>
  The numbers of an account stay binary64 numbers. When the balance and the interest rate
  of every account are binary64 numbers and every rate passed to \<^verbatim>\<open>setInterestRate\<close> is
  one, they still are after any sequence of calls: every result of an operation is
  rounded.
\<close>

theorem numbers_stay_doubles:
  "(\<forall>p. numbers_ok (h p)) \<and> list_all rate_is_double cs \<longrightarrow> (\<forall>p. numbers_ok (run cs h p))"
  using run_numbers_ok [of h cs] by blast

text \<open>The demonstration: the literals of \<^verbatim>\<open>main\<close> denote binary64 numbers.\<close>

theorem numbers_stay_doubles_witness:
  "(\<forall>p. numbers_ok (main_store p)) \<and> list_all rate_is_double main_calls \<and>
   (\<forall>p. numbers_ok (run main_calls main_store p))"
proof -
  have a: "\<forall>p. numbers_ok (main_store p)"
    by (simp add: main_store_numbers_ok)
  have b: "list_all rate_is_double main_calls"
    by (simp add: main_calls_def is_double_of_rat del: is_double.simps)
  show ?thesis
    using numbers_stay_doubles [of main_store main_calls] a b by blast
qed

text \<open>
  The scenario of the specification. From 5000 at the rate 3.5: the deposit of 2000
  gives 7000, the withdrawal of 3000 gives 4000, the withdrawal of 100000 fails and
  leaves 4000, the interest gives 4140, and the transfer of 500 leaves 3640 and raises
  the second account from 10000 to 10500. No operation rounds.
\<close>

theorem scenario:
  "balance (run [Deposit 0 (Finite False 2000)] main_store 0) = Finite False 7000 \<and>
   balance (run [Deposit 0 (Finite False 2000), Withdraw 0 (Finite False 3000)] main_store 0) =
     Finite False 4000 \<and>
   fst (withdraw (Finite False 100000)
     (run [Deposit 0 (Finite False 2000), Withdraw 0 (Finite False 3000)] main_store 0)) =
     InsufficientFunds \<and>
   balance (run [Deposit 0 (Finite False 2000), Withdraw 0 (Finite False 3000),
     Withdraw 0 (Finite False 100000)] main_store 0) = Finite False 4000 \<and>
   balance (run [Deposit 0 (Finite False 2000), Withdraw 0 (Finite False 3000),
     Withdraw 0 (Finite False 100000), ApplyInterest 0] main_store 0) = Finite False 4140 \<and>
   balance (run scenario_calls main_store 0) = Finite False 3640 \<and>
   balance (run scenario_calls main_store 1) = Finite False 10500"
  by (simp add: scenario_calls_def main_store_def store_of_def BankAccount_ctor_def method_defs
      Let_def lit_5000 lit_10000 lit_3_5 lit_1 fgt_def d0_def scenario_steps
      del: fadd.simps fmul.simps fdiv.simps)

end
